theory Spec2Isabelle
  imports Main "HOL-Library.Word"
begin

unbundle bit_operations_syntax

section \<open>Data model of \<^verbatim>\<open>engine/source/game/net/serverQuery.cpp\<close>\<close>

text \<open>
  Torque's fixed-width integers.  \<^verbatim>\<open>S32\<close> values are kept as 32-bit words and read
  with \<open>sint\<close> where the code compares them as signed numbers.
\<close>

type_synonym U8 = "8 word"
type_synonym U16 = "16 word"
type_synonym U32 = "32 word"
type_synonym S32 = "32 word"

text \<open>
  Modelled from the spec: \<^verbatim>\<open>NetAddress\<close> is declared in the platform layer, which is
  not part of the source file.  Section 3 of the specification describes it as a tagged
  union of an IPv4 address with a port and a legacy IPX address, two addresses being
  equal iff family and all fields are equal.
\<close>

datatype NetAddress =
  IPAddress U8 U8 U8 U8 U16
| IPXAddress "U8 list" "U8 list" U16

text \<open>Modelled from the spec: \<^verbatim>\<open>Net::compareAddresses\<close> (platform layer): equality of
  family and of all fields.\<close>

definition compareAddresses :: "NetAddress \<Rightarrow> NetAddress \<Rightarrow> bool" where
  "compareAddresses a b = (a = b)"

text \<open>
  The structs of the file.  Several structs share field names (\<^verbatim>\<open>address\<close>,
  \<^verbatim>\<open>key\<close>, \<^verbatim>\<open>time\<close>, \<^verbatim>\<open>tryCount\<close>), so every field carries the initials of its
  struct: \<open>p_\<close> for \<^verbatim>\<open>Ping\<close>, \<open>ps_\<close> for \<^verbatim>\<open>PacketStatus\<close>, \<open>si_\<close> for
  \<^verbatim>\<open>ServerInfo\<close>, \<open>mi_\<close> for \<^verbatim>\<open>MasterInfo\<close>, \<open>f_\<close> for \<^verbatim>\<open>ServerFilter\<close>.
\<close>

record Ping =
  p_address :: NetAddress
  p_session :: S32
  p_key :: S32
  p_time :: U32
  p_tryCount :: U32
  p_broadcast :: bool
  p_isLocal :: bool

record PacketStatus =
  ps_index :: U8
  ps_key :: S32
  ps_time :: U32
  ps_tryCount :: U32

record MasterInfo =
  mi_address :: NetAddress
  mi_region :: U32

text \<open>
  Modelled from the spec: \<^verbatim>\<open>ServerInfo\<close> is declared in \<^verbatim>\<open>serverQuery.h\<close>, which is
  not part of the source file.  The fields are those of section 3 of the specification,
  with its widths, under the names the source file reads and writes them by.  A
  \<^verbatim>\<open>char*\<close> field that may be \<^verbatim>\<open>NULL\<close> is a \<open>string option\<close>.  The methods
  \<^verbatim>\<open>isUpdating\<close>, \<^verbatim>\<open>isQuerying\<close>, \<^verbatim>\<open>isDedicated\<close> and \<^verbatim>\<open>isPassworded\<close> test the
  status bit of that name.
\<close>

record ServerInfo =
  si_status :: U32
  si_address :: NetAddress
  si_name :: "string option"
  si_gameType :: "string option"
  si_missionType :: "string option"
  si_missionName :: "string option"
  si_statusString :: "string option"
  si_infoString :: "string option"
  si_numPlayers :: U8
  si_maxPlayers :: U8
  si_numBots :: U8
  si_version :: U32
  si_ping :: U32
  si_cpuSpeed :: U16
  si_isFavorite :: bool
  si_isLocal :: bool

datatype FilterType = Normal | Buddy | Offline | Favorites | OfflineFiltered

record ServerFilter =
  f_type :: FilterType
  f_gameType :: "string option"
  f_missionType :: "string option"
  f_queryFlags :: U8
  f_minPlayers :: U8
  f_maxPlayers :: U8
  f_maxBots :: U8
  f_regionMask :: U32
  f_maxPing :: U32
  f_filterFlags :: U8
  f_minCPU :: U16
  f_buddyList :: "U32 list"

text \<open>Query flags of \<^verbatim>\<open>ServerFilter\<close>.\<close>

definition OnlineQuery :: U8 where "OnlineQuery = 0"
definition OfflineQuery :: U8 where "OfflineQuery = 1"
definition NoStringCompress :: U8 where "NoStringCompress = 2"

text \<open>The constants at the head of the file.\<close>

definition versionString :: string where "versionString = ''VER1''"
definition gMasterServerRetryCount :: S32 where "gMasterServerRetryCount = 3"
definition gMasterServerTimeout :: S32 where "gMasterServerTimeout = 2000"
definition gPacketRetryCount :: S32 where "gPacketRetryCount = 4"
definition gPacketTimeout :: S32 where "gPacketTimeout = 1000"
definition gMaxConcurrentPings :: nat where "gMaxConcurrentPings = 10"
definition gMaxConcurrentQueries :: nat where "gMaxConcurrentQueries = 2"
definition gPingRetryCount :: S32 where "gPingRetryCount = 4"
definition gPingTimeout :: S32 where "gPingTimeout = 800"
definition gQueryRetryCount :: S32 where "gQueryRetryCount = 4"
definition gQueryTimeout :: S32 where "gQueryTimeout = 1000"

subsection \<open>Effects: packets sent, events posted, status callbacks, console variables\<close>

datatype PacketType =
  GamePingRequest | GamePingResponse | GameInfoRequest | GameInfoResponse
| GameHeartbeat | MasterServerListRequest | MasterServerGamePingRequest
| MasterServerGameInfoRequest

text \<open>
  What \<^verbatim>\<open>BitStream::sendPacketStream\<close> is given.  \<open>InfoPacket\<close> is the header-only
  packet of \<^verbatim>\<open>sendPacket\<close> (type, flags, key field); \<open>ListRequest\<close> is the
  master-server list request (flags, key field, page index, then the filter body);
  \<open>ForwardedRequest\<close> is the hole-punching request handed to the masters (type, target
  address, flags, key field); \<open>PingResponse\<close> is the reply of the responder (flags, key
  field, whether strings are written uncompressed, version tag, current and minimum
  protocol, build version, server name).
\<close>

datatype Packet =
  InfoPacket PacketType U8 U32
| ListRequest U8 U32 U8 "string option" "string option" U8 U8 U32 U32 U8 U8 U16 "U32 list"
| ForwardedRequest PacketType NetAddress U8 U32
| PingResponse U8 U32 bool string U32 U32 U32 string

datatype SimEvent =
  ProcessMasterQueryEvent U32
| ProcessPingEvent U32
| ProcessPacketEvent U32
| HeartbeatEvent U32

text \<open>
  The arguments of the script callback \<^verbatim>\<open>onServerQueryStatus\<close>.  The progress argument
  is a float in the source; the model keeps the two unsigned operands of the division
  (\<open>PingRatio n d\<close> stands for \<open>n / d\<close>, \<open>QueryRatio n d\<close> for \<open>0.5 + n / d\<close>) and never
  computes with floats.
\<close>

datatype StatusMessage =
  RefreshingServer
| WaitingForLanServers
| PingingServersLeft U32
| QueryingServersLeft U32
| NoServersFound
| OneServerFound
| ServersFound U32

datatype Progress =
  ProgressZero | ProgressHalf | ProgressOne | PingRatio U32 U32 | QueryRatio U32 U32

datatype StatusCallback = OnServerQueryStatus string StatusMessage Progress

datatype ConValue = IntValue S32 | StringValue "string option" | BoolValue bool

subsection \<open>The module-level state\<close>

record QueryState =
  gServerList :: "ServerInfo list"
  gMasterServerList :: "MasterInfo list"
  gFinishedList :: "NetAddress list"
  gMasterServerQueryAddress :: NetAddress
  gServerBrowserDirty :: bool
  sgServerQueryActive :: bool
  gPingSession :: S32
  gKey :: S32
  gGotFirstListPacket :: bool
  gServerPingCount :: U32
  gServerQueryCount :: U32
  gHeartbeatSeq :: U32
  gMasterServerPing :: Ping
  gPingList :: "Ping list"
  gQueryList :: "Ping list"
  gPacketStatusList :: "PacketStatus list"
  sActiveFilter :: ServerFilter
  localNetAddresses :: "NetAddress list"
  sentPackets :: "(NetAddress \<times> Packet) list"
  postedEvents :: "(SimEvent \<times> U32) list"
  statusCallbacks :: "StatusCallback list"
  conVariables :: "string \<Rightarrow> ConValue option"

text \<open>
  What a handler reads from outside the file while it runs: the clocks, the connection
  layer, the build, and the console variables of the server side.  A handler runs to
  completion within one event dispatch, so it sees one value of each.  The status bits
  of \<^verbatim>\<open>ServerInfo\<close>, the protocol versions of \<^verbatim>\<open>GameConnection\<close> and the default
  \<^verbatim>\<open>ServerInfo\<close> are declared in headers outside the source file and are taken as
  parameters here.  A master variable \<^verbatim>\<open>Server::Master<i>\<close> is \<open>None\<close> when unset or
  empty, and otherwise the region \<^verbatim>\<open>dSscanf\<close> read (1 when it read none) with the
  address \<^verbatim>\<open>Net::stringToAddress\<close> parsed, if it could.
\<close>

record Env =
  virtualMilliseconds :: U32
  simCurrentTime :: U32
  simTargetTime :: U32
  doesAllowConnections :: bool
  holePunching :: bool
  validateAuthenticatedServer :: bool
  versionNumber :: U32
  CurrentProtocolVersion :: U32
  MinRequiredProtocolVersion :: U32
  Status_New :: U32
  Status_Querying :: U32
  Status_Updating :: U32
  Status_Responded :: U32
  Status_TimedOut :: U32
  Status_Dedicated :: U32
  Status_Passworded :: U32
  newServerInfo :: ServerInfo
  masterVariable :: "nat \<Rightarrow> (U32 \<times> NetAddress option) option"
  serverType :: string
  prefMaxPlayers :: S32
  prefPrivateSlots :: S32
  serverPlayerCount :: S32
  prefServerName :: string
  addressToString :: "NetAddress \<Rightarrow> string"

section \<open>Helpers of the platform layer\<close>

text \<open>Modelled from the spec: \<^verbatim>\<open>dStricmp\<close> (platform string library, not in the source
  file) compares two C strings ignoring the case of ASCII letters, as section 4.3 of the
  specification says of the filter comparisons; the result is zero iff they agree.\<close>

definition dTolower :: "char \<Rightarrow> char" where
  "dTolower c = (let n = (of_char c :: nat) in
     if 65 \<le> n \<and> n \<le> 90 then char_of (n + 32) else c)"

fun dStricmp :: "string \<Rightarrow> string \<Rightarrow> int" where
  "dStricmp [] [] = 0"
| "dStricmp [] (b # bs) = - 1"
| "dStricmp (a # as) [] = 1"
| "dStricmp (a # as) (b # bs) =
     (let x = (of_char (dTolower a) :: nat); y = (of_char (dTolower b) :: nat) in
      if x = y then dStricmp as bs else int x - int y)"

text \<open>Modelled from the spec: \<^verbatim>\<open>Vector::erase(index)\<close> (the engine's vector, not in
  the source file) removes the element at the index and keeps the order of the others,
  as the queues of section 4.1 of the specification need.\<close>

definition erase :: "nat \<Rightarrow> 'a list \<Rightarrow> 'a list" where
  "erase i xs = take i xs @ drop (Suc i) xs"

text \<open>Modelled from the spec: \<^verbatim>\<open>BitSet32::test\<close> (the engine's bit set, not in the
  source file) tells whether a bit of the mask is set in the flags, the status of
  section 3 of the specification being a set of flags.\<close>

definition test :: "U32 \<Rightarrow> U32 \<Rightarrow> bool" where
  "test bits m = (bits AND m \<noteq> 0)"

text \<open>The key field of every packet: \<^verbatim>\<open>(session << 16) | (key & 0xFFFF)\<close>.\<close>

definition keyField :: "U32 \<Rightarrow> U32 \<Rightarrow> U32" where
  "keyField session key = (push_bit 16 session) OR (key AND 0xFFFF)"

section \<open>Internal functions\<close>

fun findPingEntry :: "Ping list \<Rightarrow> NetAddress \<Rightarrow> nat option" where
  "findPingEntry [] addr = None"
| "findPingEntry (p # v) addr =
     (if compareAddresses addr (p_address p) then Some 0
      else map_option Suc (findPingEntry v addr))"

fun addressInList :: "NetAddress \<Rightarrow> NetAddress list \<Rightarrow> bool" where
  "addressInList addr [] = False"
| "addressInList addr (a # as) = (if compareAddresses addr a then True else addressInList addr as)"

definition addressFinished :: "NetAddress \<Rightarrow> QueryState \<Rightarrow> bool" where
  "addressFinished addr s = addressInList addr (gFinishedList s)"

text \<open>\<^verbatim>\<open>findServerInfo\<close> returns a pointer into \<^verbatim>\<open>gServerList\<close>; the model returns the
  index of that element, \<open>None\<close> for \<^verbatim>\<open>NULL\<close>.\<close>

fun findServerInfo :: "ServerInfo list \<Rightarrow> NetAddress \<Rightarrow> nat option" where
  "findServerInfo [] addr = None"
| "findServerInfo (si # l) addr =
     (if compareAddresses addr (si_address si) then Some 0
      else map_option Suc (findServerInfo l addr))"

text \<open>\<^verbatim>\<open>sendPacket\<close> writes the header and sends it; the model appends the packet to
  the log of the state.  Console output (\<^verbatim>\<open>Con::printf\<close>) is not modelled.\<close>

definition sendPacket :: "PacketType \<Rightarrow> NetAddress \<Rightarrow> U32 \<Rightarrow> U32 \<Rightarrow> U8 \<Rightarrow> QueryState \<Rightarrow> QueryState" where
  "sendPacket pType addr key session flags s =
     s\<lparr>sentPackets := sentPackets s @ [(addr, InfoPacket pType flags (keyField session key))]\<rparr>"

text \<open>\<^verbatim>\<open>Sim::postEvent\<close> with the event and the time it is due; \<^verbatim>\<open>Con::executef\<close> of
  the status callback.  Both are kept as logs in the state.\<close>

definition postEvent :: "SimEvent \<Rightarrow> U32 \<Rightarrow> QueryState \<Rightarrow> QueryState" where
  "postEvent ev t s = s\<lparr>postedEvents := postedEvents s @ [(ev, t)]\<rparr>"

definition onServerQueryStatus :: "string \<Rightarrow> StatusMessage \<Rightarrow> Progress \<Rightarrow> QueryState \<Rightarrow> QueryState" where
  "onServerQueryStatus phase msg progress s =
     s\<lparr>statusCallbacks := statusCallbacks s @ [OnServerQueryStatus phase msg progress]\<rparr>"

text \<open>The assignment \<^verbatim>\<open>si->status = st\<close> through the pointer \<^verbatim>\<open>findServerInfo\<close>
  returned.\<close>

definition setStatus :: "nat \<Rightarrow> U32 \<Rightarrow> ServerInfo list \<Rightarrow> ServerInfo list" where
  "setStatus j st l = l[j := (l ! j)\<lparr>si_status := st\<rparr>]"

definition findOrCreateServerInfo :: "Env \<Rightarrow> NetAddress \<Rightarrow> QueryState \<Rightarrow> nat \<times> QueryState" where
  "findOrCreateServerInfo env addr s =
     (case findServerInfo (gServerList s) addr of
        Some j \<Rightarrow> (j, s)
      | None \<Rightarrow> (length (gServerList s),
                 s\<lparr>gServerList := gServerList s @ [(newServerInfo env)\<lparr>si_address := addr\<rparr>]\<rparr>))"

text \<open>The loop of \<^verbatim>\<open>removeServerInfo\<close> advances its index also after an erase.\<close>

function removeServerInfoFrom :: "nat \<Rightarrow> NetAddress \<Rightarrow> QueryState \<Rightarrow> QueryState" where
  "removeServerInfoFrom i addr s =
     (if i < length (gServerList s) then
        (if compareAddresses addr (si_address (gServerList s ! i))
         then removeServerInfoFrom (Suc i) addr
                (s\<lparr>gServerList := erase i (gServerList s), gServerBrowserDirty := True\<rparr>)
         else removeServerInfoFrom (Suc i) addr s)
      else s)"
  by pat_completeness auto
termination
  by (relation "measure (\<lambda>(i, addr, s). length (gServerList s) - i)") (auto simp: erase_def)

declare removeServerInfoFrom.simps [simp del]

definition removeServerInfo :: "NetAddress \<Rightarrow> QueryState \<Rightarrow> QueryState" where
  "removeServerInfo addr s = removeServerInfoFrom 0 addr s"

definition addLocalAddress :: "NetAddress \<Rightarrow> QueryState \<Rightarrow> QueryState" where
  "addLocalAddress addr s =
     (if addressInList addr (localNetAddresses s) then s
      else s\<lparr>localNetAddresses := localNetAddresses s @ [addr]\<rparr>)"



definition clearServerList :: "bool \<Rightarrow> QueryState \<Rightarrow> QueryState" where
  "clearServerList clearServerInfo s =
     s\<lparr>gPacketStatusList := [],
       gServerList := (if clearServerInfo then [] else gServerList s),
       gFinishedList := [],
       gPingList := [],
       gQueryList := [],
       gServerPingCount := 0,
       gServerQueryCount := 0,
       localNetAddresses := [],
       gPingSession := gPingSession s + 1\<rparr>"



definition pushPingRequest :: "NetAddress \<Rightarrow> QueryState \<Rightarrow> QueryState" where
  "pushPingRequest addr s =
     (if addressFinished addr s then s
      else s\<lparr>gPingList := gPingList s @
                 [\<lparr>p_address = addr, p_session = gPingSession s, p_key = 0, p_time = 0,
                   p_tryCount = gPingRetryCount, p_broadcast = False, p_isLocal = False\<rparr>],
             gServerPingCount := gServerPingCount s + 1\<rparr>)"

definition pushPingBroadcast :: "NetAddress \<Rightarrow> QueryState \<Rightarrow> QueryState" where
  "pushPingBroadcast addr s =
     (if addressFinished addr s then s
      else s\<lparr>gPingList := gPingList s @
                 [\<lparr>p_address = addr, p_session = gPingSession s, p_key = 0, p_time = 0,
                   p_tryCount = 1, p_broadcast = True, p_isLocal = True\<rparr>]\<rparr>)"

fun countDown :: "Ping list \<Rightarrow> U32 \<Rightarrow> U32" where
  "countDown [] count = count"
| "countDown (p # v) count = countDown v (if p_broadcast p then count - 1 else count)"

definition countPingRequests :: "QueryState \<Rightarrow> S32" where
  "countPingRequests s = countDown (gPingList s) (of_nat (length (gPingList s)))"

definition updateQueryProgress :: "QueryState \<Rightarrow> QueryState" where
  "updateQueryProgress s =
     (if gPingList s \<noteq> [] then s
      else
        let queriesLeft = (of_nat (length (gQueryList s)) :: U32) in
        onServerQueryStatus ''query'' (QueryingServersLeft queriesLeft)
          (if gServerQueryCount s \<noteq> 0
           then QueryRatio (gServerQueryCount s - queriesLeft) (gServerQueryCount s * 2)
           else ProgressHalf) s)"

definition updatePingProgress :: "QueryState \<Rightarrow> QueryState" where
  "updatePingProgress s =
     (if gPingList s = [] then updateQueryProgress s
      else
        let pingsLeft = countPingRequests s in
        onServerQueryStatus ''ping''
          (if pingsLeft = 0 \<and> gPingList s \<noteq> [] then WaitingForLanServers
           else PingingServersLeft pingsLeft)
          (if gServerPingCount s \<noteq> 0
           then PingRatio (gServerPingCount s - pingsLeft) (gServerPingCount s * 2)
           else ProgressZero) s)"

section \<open>Public query methods\<close>

text \<open>
  The two \<^verbatim>\<open>while\<close> loops of \<^verbatim>\<open>cancelServerQuery\<close> take the first entry of a list,
  mark its server as timed out unless it has responded, and erase the entry, until the
  list is empty.  \<open>timeOutEntries\<close> is one such loop: it returns the server list it
  leaves behind; the list of entries is empty afterwards.
\<close>

fun timeOutEntries :: "Env \<Rightarrow> Ping list \<Rightarrow> ServerInfo list \<Rightarrow> ServerInfo list" where
  "timeOutEntries env [] l = l"
| "timeOutEntries env (p # v) l =
     timeOutEntries env v
       (case findServerInfo l (p_address p) of
          None \<Rightarrow> l
        | Some j \<Rightarrow>
            if \<not> test (si_status (l ! j)) (Status_Responded env)
            then setStatus j (Status_TimedOut env) l else l)"

definition cancelServerQuery :: "Env \<Rightarrow> QueryState \<Rightarrow> QueryState" where
  "cancelServerQuery env s =
     (if sgServerQueryActive s then
        s\<lparr>gPacketStatusList := [],
          gServerList := timeOutEntries env (gQueryList s)
                           (timeOutEntries env (gPingList s) (gServerList s)),
          gPingList := [],
          gQueryList := [],
          sgServerQueryActive := False,
          gServerBrowserDirty := True\<rparr>
      else s)"


section \<open>Heartbeat\<close>




section \<open>Publishing one server to the console\<close>

text \<open>
  \<^verbatim>\<open>setServerInfo\<close> takes the value of \<^verbatim>\<open>dAtoi(argv[1])\<close>, a signed integer, and stores
  it in a \<^verbatim>\<open>U32\<close>; the test \<^verbatim>\<open>index >= 0\<close> is then always true and the comparison with
  the size of the list is unsigned.
\<close>

definition publish :: "Env \<Rightarrow> ServerInfo \<Rightarrow> (string \<Rightarrow> ConValue option) \<Rightarrow> (string \<Rightarrow> ConValue option)" where
  "publish env info vars =
     vars(''ServerInfo::Status'' \<mapsto> IntValue (si_status info),
          ''ServerInfo::Address'' \<mapsto> StringValue (Some (addressToString env (si_address info))),
          ''ServerInfo::Name'' \<mapsto> StringValue (si_name info),
          ''ServerInfo::GameType'' \<mapsto> StringValue (si_gameType info),
          ''ServerInfo::MissionName'' \<mapsto> StringValue (si_missionName info),
          ''ServerInfo::MissionType'' \<mapsto> StringValue (si_missionType info),
          ''ServerInfo::State'' \<mapsto> StringValue (si_statusString info),
          ''ServerInfo::Info'' \<mapsto> StringValue (si_infoString info),
          ''ServerInfo::PlayerCount'' \<mapsto> IntValue (ucast (si_numPlayers info)),
          ''ServerInfo::MaxPlayers'' \<mapsto> IntValue (ucast (si_maxPlayers info)),
          ''ServerInfo::BotCount'' \<mapsto> IntValue (ucast (si_numBots info)),
          ''ServerInfo::Version'' \<mapsto> IntValue (si_version info),
          ''ServerInfo::Ping'' \<mapsto> IntValue (si_ping info),
          ''ServerInfo::CPUSpeed'' \<mapsto> IntValue (ucast (si_cpuSpeed info)),
          ''ServerInfo::Favorite'' \<mapsto> BoolValue (si_isFavorite info),
          ''ServerInfo::Dedicated'' \<mapsto> BoolValue (test (si_status info) (Status_Dedicated env)),
          ''ServerInfo::Password'' \<mapsto> BoolValue (test (si_status info) (Status_Passworded env)),
          ''ServerInfo::IsLocal'' \<mapsto> BoolValue (si_isLocal info))"

definition setServerInfo :: "Env \<Rightarrow> S32 \<Rightarrow> QueryState \<Rightarrow> bool \<times> QueryState" where
  "setServerInfo env arg s =
     (let index = unat arg in
      if 0 \<le> index \<and> index < length (gServerList s) then
        (True, s\<lparr>conVariables := publish env (gServerList s ! index) (conVariables s)\<rparr>)
      else (False, s))"

section \<open>The responder\<close>

definition handleGamePingRequest :: "Env \<Rightarrow> NetAddress \<Rightarrow> U32 \<Rightarrow> U8 \<Rightarrow> QueryState \<Rightarrow> QueryState" where
  "handleGamePingRequest env address key flags s =
     (if doesAllowConnections env then
        (if dStricmp (serverType env) ''SinglePlayer'' = 0 then s
         else if flags AND OfflineQuery \<noteq> 0 then s
         else
           let maxCount = prefMaxPlayers env - prefPrivateSlots env in
           if sint maxCount \<le> sint (serverPlayerCount env) then s
           else
             s\<lparr>sentPackets := sentPackets s @
                 [(address, PingResponse flags key (flags AND NoStringCompress \<noteq> 0) versionString
                     (CurrentProtocolVersion env) (MinRequiredProtocolVersion env)
                     (versionNumber env) (take 24 (prefServerName env)))]\<rparr>)
      else s)"

section \<open>Event processing\<close>

text \<open>
  With \<^verbatim>\<open>TORQUE_NET_HOLEPUNCHING\<close> the request for a server that is not a broadcast
  target is also written once and handed to every master of \<^verbatim>\<open>gMasterServerList\<close>.
\<close>

definition forwardToMasters :: "Packet \<Rightarrow> QueryState \<Rightarrow> QueryState" where
  "forwardToMasters pkt s =
     s\<lparr>sentPackets := sentPackets s @ map (\<lambda>m. (mi_address m, pkt)) (gMasterServerList s)\<rparr>"

text \<open>The branch of the ping loop for a ping that is due and has no tries left.\<close>

definition pingTimedOut :: "Env \<Rightarrow> bool \<Rightarrow> nat \<Rightarrow> QueryState \<Rightarrow> QueryState" where
  "pingTimedOut env waitingForMaster i s =
     (let p = gPingList s ! i;
          s1 = (case findServerInfo (gServerList s) (p_address p) of
                  None \<Rightarrow> s
                | Some j \<Rightarrow> s\<lparr>gServerList := setStatus j (Status_TimedOut env) (gServerList s),
                              gServerBrowserDirty := True\<rparr>);
          s2 = s1\<lparr>gFinishedList := gFinishedList s1 @ [p_address p],
                  gPingList := erase i (gPingList s1)\<rparr>
      in if \<not> waitingForMaster then updatePingProgress s2 else s2)"

text \<open>The branch of the ping loop for a ping that is due and has tries left.\<close>

definition pingResend :: "Env \<Rightarrow> nat \<Rightarrow> QueryState \<Rightarrow> QueryState" where
  "pingResend env i s =
     (let p = (gPingList s ! i)\<lparr>p_tryCount := p_tryCount (gPingList s ! i) - 1,
                                 p_time := virtualMilliseconds env,
                                 p_key := gKey s\<rparr>;
          s1 = s\<lparr>gPingList := (gPingList s)[i := p], gKey := gKey s + 1\<rparr>;
          s2 = sendPacket GamePingRequest (p_address p) (p_key p) (p_session p) OnlineQuery s1
      in if holePunching env \<and> \<not> p_broadcast p
         then forwardToMasters
                (ForwardedRequest MasterServerGamePingRequest (p_address p) OnlineQuery
                   (keyField (p_session p) (p_key p))) s2
         else s2)"

lemma gPingList_pingTimedOut [simp]:
  "gPingList (pingTimedOut env w i s) = erase i (gPingList s)"
  by (simp add: pingTimedOut_def Let_def updatePingProgress_def updateQueryProgress_def
      onServerQueryStatus_def split: option.split)

lemma gPingList_pingResend [simp]:
  "length (gPingList (pingResend env i s)) = length (gPingList s)"
  by (simp add: pingResend_def Let_def sendPacket_def forwardToMasters_def)

lemma length_erase [simp]: "i < length xs \<Longrightarrow> length (erase i xs) = length xs - 1"
  by (simp add: erase_def)

function pingLoop :: "Env \<Rightarrow> bool \<Rightarrow> nat \<Rightarrow> QueryState \<Rightarrow> QueryState" where
  "pingLoop env waitingForMaster i s =
     (if i < length (gPingList s) \<and> i < gMaxConcurrentPings then
        (if p_time (gPingList s ! i) + gPingTimeout < virtualMilliseconds env then
           (if p_tryCount (gPingList s ! i) = 0
            then pingLoop env waitingForMaster i (pingTimedOut env waitingForMaster i s)
            else pingLoop env waitingForMaster (Suc i) (pingResend env i s))
         else pingLoop env waitingForMaster (Suc i) s)
      else s)"
  by pat_completeness auto
termination
  by (relation "measure (\<lambda>(env, w, i, s). length (gPingList s) - i)") auto

declare pingLoop.simps [simp del]

text \<open>The branch of the query loop that sends a \<^verbatim>\<open>GameInfoRequest\<close>; \<open>j\<close> is the
  server info found for the entry.\<close>

definition queryResend :: "Env \<Rightarrow> nat \<Rightarrow> nat \<Rightarrow> QueryState \<Rightarrow> QueryState" where
  "queryResend env i j s =
     (let p = (gQueryList s ! i)\<lparr>p_tryCount := p_tryCount (gQueryList s ! i) - 1,
                                  p_time := virtualMilliseconds env,
                                  p_key := gKey s\<rparr>;
          s1 = s\<lparr>gQueryList := (gQueryList s)[i := p], gKey := gKey s + 1\<rparr>;
          s2 = sendPacket GameInfoRequest (p_address p) (p_key p) (p_session p) OnlineQuery s1;
          s3 = (if holePunching env \<and> \<not> p_broadcast p
                then forwardToMasters
                       (ForwardedRequest MasterServerGameInfoRequest (p_address p) OnlineQuery
                          (keyField (p_session p) (p_key p))) s2
                else s2)
      in if \<not> test (si_status (gServerList s3 ! j)) (Status_Querying env)
         then s3\<lparr>gServerList :=
                   setStatus j (si_status (gServerList s3 ! j) OR Status_Querying env) (gServerList s3),
                 gServerBrowserDirty := True\<rparr>
         else s3)"

lemma gQueryList_queryResend [simp]:
  "length (gQueryList (queryResend env i j s)) = length (gQueryList s)"
  by (simp add: queryResend_def Let_def sendPacket_def forwardToMasters_def)

function queryLoop :: "Env \<Rightarrow> nat \<Rightarrow> QueryState \<Rightarrow> QueryState" where
  "queryLoop env i s =
     (if i < length (gQueryList s) \<and> i < gMaxConcurrentQueries then
        (if p_time (gQueryList s ! i) + gPingTimeout < virtualMilliseconds env then
           (case findServerInfo (gServerList s) (p_address (gQueryList s ! i)) of
              None \<Rightarrow>
                queryLoop env i (s\<lparr>gQueryList := erase i (gQueryList s), gServerBrowserDirty := True\<rparr>)
            | Some j \<Rightarrow>
                if p_tryCount (gQueryList s ! i) = 0
                then queryLoop env i
                       (s\<lparr>gServerList := setStatus j (Status_TimedOut env) (gServerList s),
                          gQueryList := erase i (gQueryList s),
                          gServerBrowserDirty := True\<rparr>)
                else queryLoop env (Suc i) (queryResend env i j s))
         else queryLoop env (Suc i) s)
      else s)"
  by pat_completeness auto
termination
  by (relation "measure (\<lambda>(env, i, s). length (gQueryList s) - i)") auto

declare queryLoop.simps [simp del]

definition doneMessage :: "nat \<Rightarrow> StatusMessage" where
  "doneMessage foundCount =
     (if foundCount = 0 then NoServersFound
      else if foundCount = 1 then OneServerFound
      else ServersFound (of_nat foundCount))"

definition waitingForMaster :: "QueryState \<Rightarrow> bool" where
  "waitingForMaster s =
     (f_type (sActiveFilter s) = Normal \<and> \<not> gGotFirstListPacket s \<and> sgServerQueryActive s)"

definition processPingsAndQueries :: "Env \<Rightarrow> U32 \<Rightarrow> bool \<Rightarrow> QueryState \<Rightarrow> QueryState" where
  "processPingsAndQueries env session schedule s =
     (if session \<noteq> gPingSession s then s
      else
        let w = waitingForMaster s;
            s1 = pingLoop env w 0 s;
            s2 = (if gPingList s1 = [] \<and> \<not> w then queryLoop env 0 s1 else s1)
        in if gPingList s2 \<noteq> [] \<or> gQueryList s2 \<noteq> [] \<or> w then
             (if schedule then postEvent (ProcessPingEvent session) (simTargetTime env + 1) s2
              else s2)
           else onServerQueryStatus ''done'' (doneMessage (length (gServerList s2))) ProgressOne s2)"

text \<open>The branch of the packet loop that asks the master again for one page.\<close>

definition packetResend :: "Env \<Rightarrow> U32 \<Rightarrow> nat \<Rightarrow> QueryState \<Rightarrow> QueryState" where
  "packetResend env session i s =
     (let p = (gPacketStatusList s ! i)\<lparr>ps_tryCount := ps_tryCount (gPacketStatusList s ! i) - 1,
                                         ps_time := virtualMilliseconds env,
                                         ps_key := gKey s\<rparr>
      in s\<lparr>gPacketStatusList := (gPacketStatusList s)[i := p],
           gKey := gKey s + 1,
           sentPackets := sentPackets s @
             [(gMasterServerQueryAddress s,
               ListRequest (f_queryFlags (sActiveFilter s)) (keyField session (ps_key p)) (ps_index p)
                 (Some []) (Some []) 0 0 0 0 0 0 0 [])]\<rparr>)"

lemma gPacketStatusList_packetResend [simp]:
  "length (gPacketStatusList (packetResend env session i s)) = length (gPacketStatusList s)"
  by (simp add: packetResend_def Let_def)

text \<open>The \<^verbatim>\<open>for\<close> loop of \<^verbatim>\<open>processServerListPackets\<close> advances its index also after
  an erase.\<close>

function packetLoop :: "Env \<Rightarrow> U32 \<Rightarrow> nat \<Rightarrow> QueryState \<Rightarrow> QueryState" where
  "packetLoop env session i s =
     (if i < length (gPacketStatusList s) then
        (if ps_time (gPacketStatusList s ! i) + gPacketTimeout < virtualMilliseconds env then
           (if ps_tryCount (gPacketStatusList s ! i) = 0
            then packetLoop env session (Suc i)
                   (s\<lparr>gPacketStatusList := erase i (gPacketStatusList s)\<rparr>)
            else packetLoop env session (Suc i) (packetResend env session i s))
         else packetLoop env session (Suc i) s)
      else s)"
  by pat_completeness auto
termination
  by (relation "measure (\<lambda>(env, session, i, s). length (gPacketStatusList s) - i)") auto

declare packetLoop.simps [simp del]

definition processServerListPackets :: "Env \<Rightarrow> U32 \<Rightarrow> QueryState \<Rightarrow> QueryState" where
  "processServerListPackets env session s =
     (if session \<noteq> gPingSession s \<or> \<not> sgServerQueryActive s then s
      else
        let s1 = packetLoop env session 0 s
        in if gPacketStatusList s1 \<noteq> []
           then postEvent (ProcessPacketEvent session) (simCurrentTime env + 30) s1
           else processPingsAndQueries env (gPingSession s1) True s1)"

section \<open>Server packet handlers\<close>

text \<open>
  The handlers read their packet from a bit stream.  The model gives them the fields
  the stream holds, already decoded: a master list response with its page index, page
  total and server entries (the four address bytes and the port of each), and a ping
  response with its version tag, the two protocol versions, the build version and the
  server name.
\<close>

record MasterServerListResponse =
  packetIndex :: U8
  packetTotal :: U8
  servers :: "(U8 \<times> U8 \<times> U8 \<times> U8 \<times> U16) list"

record GamePingResponseBody =
  versionTag :: string
  protocolCurrent :: U32
  protocolMin :: U32
  buildVersion :: U32
  serverName :: string

fun findPacketStatus :: "PacketStatus list \<Rightarrow> U8 \<Rightarrow> nat option" where
  "findPacketStatus [] idx = None"
| "findPacketStatus (p # l) idx =
     (if ps_index p = idx then Some 0 else map_option Suc (findPacketStatus l idx))"

text \<open>The key a list response is tested against.\<close>

definition packetKey :: "U8 \<Rightarrow> QueryState \<Rightarrow> U32" where
  "packetKey idx s =
     (if gGotFirstListPacket s then
        (case findPacketStatus (gPacketStatusList s) idx of
           Some i \<Rightarrow> ps_key (gPacketStatusList s ! i)
         | None \<Rightarrow> p_key (gMasterServerPing s))
      else p_key (gMasterServerPing s))"

text \<open>Entering the servers of one packet into the ping list.\<close>

fun enterServers :: "(U8 \<times> U8 \<times> U8 \<times> U8 \<times> U16) list \<Rightarrow> U8 \<Rightarrow> QueryState \<Rightarrow> QueryState" where
  "enterServers [] flags s = s"
| "enterServers ((n0, n1, n2, n3, port) # rest) flags s =
     (let addr = IPAddress n0 n1 n2 n3 port;
          s1 = (if flags \<noteq> 0 then addLocalAddress addr s else s)
      in enterServers rest flags (pushPingRequest addr s1))"

text \<open>\<^verbatim>\<open>PacketStatus(_index, _key, _time)\<close>.\<close>

definition newPacketStatus :: "U8 \<Rightarrow> S32 \<Rightarrow> U32 \<Rightarrow> PacketStatus" where
  "newPacketStatus idx key time =
     \<lparr>ps_index = idx, ps_key = key, ps_time = time, ps_tryCount = gPacketRetryCount\<rparr>"

text \<open>Filling the packet status list when the first list packet has arrived.\<close>

function fillPacketStatusList :: "nat \<Rightarrow> U8 \<Rightarrow> U8 \<Rightarrow> S32 \<Rightarrow> U32 \<Rightarrow> PacketStatus list \<Rightarrow> PacketStatus list" where
  "fillPacketStatusList i pTotal pIndex key currentTime l =
     (if i < unat pTotal then
        (if i \<noteq> unat pIndex
         then fillPacketStatusList (Suc i) pTotal pIndex key currentTime
                (l @ [newPacketStatus (of_nat i) key currentTime])
         else fillPacketStatusList (Suc i) pTotal pIndex key currentTime l)
      else l)"
  by pat_completeness auto
termination
  by (relation "measure (\<lambda>(i, pTotal, pIndex, key, currentTime, l). unat pTotal - i)") auto

declare fillPacketStatusList.simps [simp del]

definition handleMasterServerListResponse ::
  "Env \<Rightarrow> MasterServerListResponse \<Rightarrow> U32 \<Rightarrow> U8 \<Rightarrow> QueryState \<Rightarrow> QueryState" where
  "handleMasterServerListResponse env pkt key flags s =
     (let testKey = keyField (gPingSession s) (packetKey (packetIndex pkt) s) in
      if testKey \<noteq> key then s
      else
        let s1 = enterServers (servers pkt) flags s in
        if \<not> gGotFirstListPacket s1 then
          (let s2 = s1\<lparr>gGotFirstListPacket := True,
                       gMasterServerQueryAddress := p_address (gMasterServerPing s1)\<rparr>;
               s3 = s2\<lparr>gPacketStatusList :=
                         fillPacketStatusList 0 (packetTotal pkt) (packetIndex pkt)
                           (p_key (gMasterServerPing s2)) (virtualMilliseconds env)
                           (gPacketStatusList s2)\<rparr>
           in processServerListPackets env (gPingSession s3) s3)
        else
          (case findPacketStatus (gPacketStatusList s1) (packetIndex pkt) of
             Some i \<Rightarrow> s1\<lparr>gPacketStatusList := erase i (gPacketStatusList s1)\<rparr>
           | None \<Rightarrow> s1))"

text \<open>
  The block \<^verbatim>\<open>handleGamePingResponse\<close> repeats for a response of another version or
  protocol: the address is finished, the ping erased, an existing server info timed out.
\<close>

definition rejectTimedOut :: "Env \<Rightarrow> NetAddress \<Rightarrow> nat \<Rightarrow> nat option \<Rightarrow> bool \<Rightarrow> QueryState \<Rightarrow> QueryState" where
  "rejectTimedOut env address index si waiting s =
     (let s1 = s\<lparr>gFinishedList := gFinishedList s @ [address],
                 gPingList := erase index (gPingList s)\<rparr>;
          s2 = (case si of
                  Some j \<Rightarrow> s1\<lparr>gServerList := setStatus j (Status_TimedOut env) (gServerList s1),
                                gServerBrowserDirty := True\<rparr>
                | None \<Rightarrow> s1)
      in if \<not> waiting then updatePingProgress s2 else s2)"

text \<open>The block it repeats for a response the filter rejects: the address is finished,
  the ping erased, an existing server info removed.\<close>

definition rejectRemoved :: "NetAddress \<Rightarrow> nat \<Rightarrow> nat option \<Rightarrow> bool \<Rightarrow> QueryState \<Rightarrow> QueryState" where
  "rejectRemoved address index si waiting s =
     (let s1 = s\<lparr>gFinishedList := gFinishedList s @ [address],
                 gPingList := erase index (gPingList s)\<rparr>;
          s2 = (case si of Some j \<Rightarrow> removeServerInfo address s1 | None \<Rightarrow> s1)
      in if \<not> waiting then updatePingProgress s2 else s2)"

text \<open>The end of the handler: the server passed every test and moves to the query list.\<close>

definition acceptPing :: "Env \<Rightarrow> NetAddress \<Rightarrow> GamePingResponseBody \<Rightarrow> nat \<Rightarrow> nat option \<Rightarrow> bool \<Rightarrow> U32 \<Rightarrow> QueryState \<Rightarrow> QueryState" where
  "acceptPing env address body index si waiting ping s =
     (let (j, s1) = (case si of Some j \<Rightarrow> (j, s) | None \<Rightarrow> findOrCreateServerInfo env address s);
          p = gPingList s1 ! index;
          info = (gServerList s1 ! j)\<lparr>si_ping := ping, si_version := buildVersion body,
                                      si_isLocal := p_isLocal p\<rparr>;
          info' = (if si_name info = None then info\<lparr>si_name := Some (serverName body)\<rparr> else info);
          p' = p\<lparr>p_key := 0, p_time := 0, p_tryCount := gQueryRetryCount\<rparr>;
          s2 = s1\<lparr>gServerList := (gServerList s1)[j := info'],
                  gFinishedList := gFinishedList s1 @ [address],
                  gQueryList := gQueryList s1 @ [p'],
                  gServerQueryCount := gServerQueryCount s1 + 1,
                  gPingList := erase index (gPingList s1)\<rparr>;
          s3 = (if \<not> waiting then updatePingProgress s2 else s2)
      in s3\<lparr>gServerBrowserDirty := True\<rparr>)"

definition handleGamePingResponse ::
  "Env \<Rightarrow> NetAddress \<Rightarrow> GamePingResponseBody \<Rightarrow> U32 \<Rightarrow> QueryState \<Rightarrow> QueryState" where
  "handleGamePingResponse env address body key s =
     (if gPingList s = [] then s
      else
        case findPingEntry (gPingList s) address of
          None \<Rightarrow>
            (if \<not> addressFinished address s then
               (let s1 = pushPingRequest address s in
                case findPingEntry (gPingList s1) address of
                  Some index \<Rightarrow>
                    s1\<lparr>gPingList := (gPingList s1)[index := (gPingList s1 ! index)\<lparr>p_isLocal := True\<rparr>]\<rparr>
                | None \<Rightarrow> s1)
             else s)
        | Some index \<Rightarrow>
            (let p = gPingList s ! index;
                 infoKey = keyField (p_session p) (p_key p)
             in if infoKey \<noteq> key then s
                else
                  let si = findServerInfo (gServerList s) address;
                      applyFilter =
                        (if f_type (sActiveFilter s) = Normal \<or> f_type (sActiveFilter s) = OfflineFiltered
                         then (case si of
                                 Some j \<Rightarrow> \<not> test (si_status (gServerList s ! j)) (Status_Updating env)
                               | None \<Rightarrow> True)
                         else False);
                      waiting = (f_type (sActiveFilter s) = Normal \<and> \<not> gGotFirstListPacket s);
                      time = virtualMilliseconds env;
                      ping = (if p_time p < time then time - p_time p else 0)
                  in if versionTag body \<noteq> versionString
                     then rejectTimedOut env address index si waiting s
                     else if protocolCurrent body < MinRequiredProtocolVersion env
                     then rejectTimedOut env address index si waiting s
                     else if CurrentProtocolVersion env < protocolMin body
                     then rejectTimedOut env address index si waiting s
                     else if applyFilter \<and> 0 < f_maxPing (sActiveFilter s) \<and> f_maxPing (sActiveFilter s) < ping
                     then rejectRemoved address index si waiting s
                     else if buildVersion body \<noteq> versionNumber env
                     then rejectRemoved address index si waiting s
                     else acceptPing env address body index si waiting ping s))"

section \<open>Refreshing a single server\<close>

fun eraseFirstAddress :: "NetAddress \<Rightarrow> NetAddress list \<Rightarrow> NetAddress list" where
  "eraseFirstAddress addr [] = []"
| "eraseFirstAddress addr (a # as) =
     (if compareAddresses addr a then as else a # eraseFirstAddress addr as)"

definition querySingleServer :: "Env \<Rightarrow> NetAddress \<Rightarrow> QueryState \<Rightarrow> QueryState" where
  "querySingleServer env addr s =
     (let s1 = s\<lparr>sgServerQueryActive := True\<rparr>;
          s2 = (case findServerInfo (gServerList s1) addr of
                  Some j \<Rightarrow> s1\<lparr>gServerList :=
                                 setStatus j (Status_New env OR Status_Updating env) (gServerList s1)\<rparr>
                | None \<Rightarrow> s1);
          s3 = s2\<lparr>gFinishedList := eraseFirstAddress addr (gFinishedList s2)\<rparr>;
          s4 = onServerQueryStatus ''start'' RefreshingServer ProgressZero s3;
          s5 = s4\<lparr>gServerPingCount := 0, gServerQueryCount := 0\<rparr>;
          s6 = pushPingRequest addr s5
      in processPingsAndQueries env (gPingSession s6) True s6)"

section \<open>The state at program start and a sample environment\<close>

text \<open>
  The statics of the file are zero-initialised and the vectors empty; the constructor of
  \<^verbatim>\<open>ServerFilter\<close> sets the fields of \<^verbatim>\<open>sActiveFilter\<close> and leaves its type at the
  zero value \<^verbatim>\<open>Normal\<close>.
\<close>

definition initialState :: QueryState where
  "initialState =
     \<lparr>gServerList = [],
      gMasterServerList = [],
      gFinishedList = [],
      gMasterServerQueryAddress = IPAddress 0 0 0 0 0,
      gServerBrowserDirty = False,
      sgServerQueryActive = False,
      gPingSession = 0,
      gKey = 0,
      gGotFirstListPacket = False,
      gServerPingCount = 0,
      gServerQueryCount = 0,
      gHeartbeatSeq = 0,
      gMasterServerPing = \<lparr>p_address = IPAddress 0 0 0 0 0, p_session = 0, p_key = 0, p_time = 0,
                             p_tryCount = 0, p_broadcast = False, p_isLocal = False\<rparr>,
      gPingList = [],
      gQueryList = [],
      gPacketStatusList = [],
      sActiveFilter = \<lparr>f_type = Normal, f_gameType = None, f_missionType = None, f_queryFlags = 0,
                         f_minPlayers = 0, f_maxPlayers = 255, f_maxBots = 16,
                         f_regionMask = 0xFFFFFFFF, f_maxPing = 0, f_filterFlags = 0, f_minCPU = 0,
                         f_buddyList = []\<rparr>,
      localNetAddresses = [],
      sentPackets = [],
      postedEvents = [],
      statusCallbacks = [],
      conVariables = (\<lambda>name. None)\<rparr>"

text \<open>
  An environment to run the model in: a dedicated multiplayer server with eight slots,
  two of them private, three players, and one master configured.  The status bits are
  those of the Torque header.
\<close>

definition sampleServerInfo :: ServerInfo where
  "sampleServerInfo =
     \<lparr>si_status = 0, si_address = IPAddress 0 0 0 0 0, si_name = None, si_gameType = None,
      si_missionType = None, si_missionName = None, si_statusString = None, si_infoString = None,
      si_numPlayers = 0, si_maxPlayers = 0, si_numBots = 0, si_version = 0, si_ping = 0,
      si_cpuSpeed = 0, si_isFavorite = False, si_isLocal = False\<rparr>"

definition sampleEnv :: Env where
  "sampleEnv =
     \<lparr>virtualMilliseconds = 5000,
      simCurrentTime = 5000,
      simTargetTime = 5000,
      doesAllowConnections = True,
      holePunching = True,
      validateAuthenticatedServer = True,
      versionNumber = 1,
      CurrentProtocolVersion = 12,
      MinRequiredProtocolVersion = 12,
      Status_New = 0,
      Status_Querying = 0x10000000,
      Status_Updating = 0x20000000,
      Status_Responded = 0x40000000,
      Status_TimedOut = 0x80000000,
      Status_Dedicated = 1,
      Status_Passworded = 2,
      newServerInfo = sampleServerInfo,
      masterVariable = (\<lambda>i. if i = 0 then Some (2, Some (IPAddress 10 0 0 1 28002)) else None),
      serverType = ''MultiPlayer'',
      prefMaxPlayers = 8,
      prefPrivateSlots = 2,
      serverPlayerCount = 3,
      prefServerName = ''Marble Blast Server'',
      addressToString = (\<lambda>a. ''IP:192.0.2.10:28000'')\<rparr>"

section \<open>Notions used in the statements\<close>

text \<open>
  A request for server information: the \<^verbatim>\<open>GameInfoRequest\<close> of \<^verbatim>\<open>sendPacket\<close> or
  its hole-punching companion handed to the masters.
\<close>

fun isInfoRequest :: "NetAddress \<times> Packet \<Rightarrow> bool" where
  "isInfoRequest (a, InfoPacket t f k) = (t = GameInfoRequest)"
| "isInfoRequest (a, ForwardedRequest t x f k) = (t = MasterServerGameInfoRequest)"
| "isInfoRequest (a, ListRequest f k i g m mn mx r v ff mb mc bl) = False"
| "isInfoRequest (a, PingResponse f k c vt pc pm bv sn) = False"

text \<open>The number of entries of \<^verbatim>\<open>gPingList\<close> for one address.\<close>

definition pingsFor :: "NetAddress \<Rightarrow> QueryState \<Rightarrow> nat" where
  "pingsFor a s = length (filter (\<lambda>p. compareAddresses a (p_address p)) (gPingList s))"

text \<open>The address a master list response gives for one of its server entries.\<close>

fun entryAddress :: "U8 \<times> U8 \<times> U8 \<times> U8 \<times> U16 \<Rightarrow> NetAddress" where
  "entryAddress (n0, n1, n2, n3, port) = IPAddress n0 n1 n2 n3 port"


subsection \<open>Sample runs\<close>

text \<open>
  Three servers, and the states of a run from program start: the player refreshes
  server A (\<open>refreshingState\<close>, the first ping to A is out), then cancels
  (\<open>cancelledState\<close>); or, instead of cancelling, two pages of a master list arrive,
  both naming server C (\<open>afterFirstFragment\<close>, \<open>afterSecondFragment\<close>).
\<close>

definition serverA :: NetAddress where "serverA = IPAddress 192 0 2 10 28000"
definition serverB :: NetAddress where "serverB = IPAddress 192 0 2 11 28000"
definition serverC :: NetAddress where "serverC = IPAddress 192 0 2 12 28000"

definition refreshingState :: QueryState where
  "refreshingState = querySingleServer sampleEnv serverA initialState"

definition cancelledState :: QueryState where
  "cancelledState = cancelServerQuery sampleEnv refreshingState"

definition firstFragment :: MasterServerListResponse where
  "firstFragment = \<lparr>packetIndex = 0, packetTotal = 2, servers = [(192, 0, 2, 12, 28000)]\<rparr>"

definition secondFragment :: MasterServerListResponse where
  "secondFragment = \<lparr>packetIndex = 1, packetTotal = 2, servers = [(192, 0, 2, 12, 28000)]\<rparr>"

definition afterFirstFragment :: QueryState where
  "afterFirstFragment = handleMasterServerListResponse sampleEnv firstFragment 0 0 refreshingState"

definition afterSecondFragment :: QueryState where
  "afterSecondFragment = handleMasterServerListResponse sampleEnv secondFragment 0 0 afterFirstFragment"

text \<open>A ping response of the protocol version of the file, and one of another version.\<close>

definition sameVersionBody :: GamePingResponseBody where
  "sameVersionBody = \<lparr>versionTag = ''VER1'', protocolCurrent = 12, protocolMin = 12,
     buildVersion = 1, serverName = ''Server B''\<rparr>"



text \<open>
  The middle of a LAN query: the ping to server A is out and not yet due, server B has
  answered its ping and waits in the query list, due for its first information request.
\<close>

definition lanState :: QueryState where
  "lanState =
     initialState
       \<lparr>gServerList := [sampleServerInfo\<lparr>si_address := serverB, si_name := Some ''Server B''\<rparr>],
        gFinishedList := [serverB],
        sgServerQueryActive := True,
        gKey := 3,
        gServerPingCount := 2,
        gServerQueryCount := 1,
        gPingList := [\<lparr>p_address = serverA, p_session = 0, p_key = 1, p_time = 4900,
                        p_tryCount = 2, p_broadcast = False, p_isLocal = False\<rparr>],
        gQueryList := [\<lparr>p_address = serverB, p_session = 0, p_key = 0, p_time = 0,
                         p_tryCount = 4, p_broadcast = False, p_isLocal = True\<rparr>],
        sActiveFilter := (sActiveFilter initialState)\<lparr>f_type := Offline\<rparr>\<rparr>"

text \<open>The sample server set to single-player mode.\<close>

definition singlePlayerEnv :: Env where
  "singlePlayerEnv = sampleEnv\<lparr>serverType := ''SinglePlayer''\<rparr>"




text \<open>
  A request for the server information of the address \<open>a\<close>: the \<^verbatim>\<open>GameInfoRequest\<close>
  sent to \<open>a\<close>, or its hole-punching companion naming \<open>a\<close> as the target.
\<close>

fun requestsInfoOf :: "NetAddress \<Rightarrow> NetAddress \<times> Packet \<Rightarrow> bool" where
  "requestsInfoOf a (dest, InfoPacket t f k) = (t = GameInfoRequest \<and> dest = a)"
| "requestsInfoOf a (dest, ForwardedRequest t x f k) = (t = MasterServerGameInfoRequest \<and> x = a)"
| "requestsInfoOf a (dest, ListRequest f k i g m mn mx r v ff mb mc bl) = False"
| "requestsInfoOf a (dest, PingResponse f k c vt pc pm bv sn) = False"

text \<open>
  An address is settled when it is finished and has an entry neither in the ping list
  nor in the query list.  \<open>keeps a s s'\<close> says that \<open>a\<close> is settled in \<open>s'\<close> and that
  \<open>s'\<close> holds the same requests for the server information of \<open>a\<close> as \<open>s\<close>.
\<close>

definition settled :: "NetAddress \<Rightarrow> QueryState \<Rightarrow> bool" where
  "settled a s =
     (addressFinished a s \<and> findPingEntry (gPingList s) a = None \<and>
      findPingEntry (gQueryList s) a = None)"

definition keeps :: "NetAddress \<Rightarrow> QueryState \<Rightarrow> QueryState \<Rightarrow> bool" where
  "keeps a s s' =
     (settled a s' \<and>
      filter (requestsInfoOf a) (sentPackets s') = filter (requestsInfoOf a) (sentPackets s))"









text \<open>
  A server list with two entries for \<^verbatim>\<open>setServerInfo\<close>, the second with every field
  set, and an environment whose \<^verbatim>\<open>Net::addressToString\<close> tells the two addresses apart.
\<close>

definition browserEnv :: Env where
  "browserEnv =
     sampleEnv\<lparr>addressToString :=
       (\<lambda>a. if a = serverA then ''IP:192.0.2.10:28000''
            else if a = serverB then ''IP:192.0.2.11:28000''
            else ''IP:0.0.0.0:0'')\<rparr>"

definition browsedState :: QueryState where
  "browsedState =
     initialState\<lparr>gServerList :=
       [sampleServerInfo\<lparr>si_address := serverA\<rparr>,
        \<lparr>si_status = 0x40000003, si_address = serverB, si_name = Some ''Server B'',
         si_gameType = Some ''Marble'', si_missionType = Some ''Race'',
         si_missionName = Some ''Learning to Roll'', si_statusString = Some ''waiting'',
         si_infoString = Some ''welcome'',
         si_numPlayers = 3, si_maxPlayers = 8, si_numBots = 1, si_version = 1, si_ping = 42,
         si_cpuSpeed = 2400, si_isFavorite = True, si_isLocal = True\<rparr>]\<rparr>"

section \<open>Properties\<close>

subsection \<open>What the helpers leave alone\<close>

lemma updateQueryProgress_fields [simp]:
  "gPingList (updateQueryProgress s) = gPingList s"
  "gQueryList (updateQueryProgress s) = gQueryList s"
  "gServerList (updateQueryProgress s) = gServerList s"
  "gFinishedList (updateQueryProgress s) = gFinishedList s"
  "sentPackets (updateQueryProgress s) = sentPackets s"
  "gPacketStatusList (updateQueryProgress s) = gPacketStatusList s"
  "gGotFirstListPacket (updateQueryProgress s) = gGotFirstListPacket s"
  by (simp_all add: updateQueryProgress_def onServerQueryStatus_def Let_def)

lemma updatePingProgress_fields [simp]:
  "gPingList (updatePingProgress s) = gPingList s"
  "gQueryList (updatePingProgress s) = gQueryList s"
  "gServerList (updatePingProgress s) = gServerList s"
  "gFinishedList (updatePingProgress s) = gFinishedList s"
  "sentPackets (updatePingProgress s) = sentPackets s"
  "gPacketStatusList (updatePingProgress s) = gPacketStatusList s"
  "gGotFirstListPacket (updatePingProgress s) = gGotFirstListPacket s"
  by (simp_all add: updatePingProgress_def onServerQueryStatus_def Let_def)

lemma pingTimedOut_fields [simp]:
  "gQueryList (pingTimedOut env w i s) = gQueryList s"
  "sentPackets (pingTimedOut env w i s) = sentPackets s"
  "gPacketStatusList (pingTimedOut env w i s) = gPacketStatusList s"
  "gGotFirstListPacket (pingTimedOut env w i s) = gGotFirstListPacket s"
  by (simp_all add: pingTimedOut_def Let_def split: option.split)

lemma pingResend_fields [simp]:
  "gQueryList (pingResend env i s) = gQueryList s"
  "filter isInfoRequest (sentPackets (pingResend env i s)) = filter isInfoRequest (sentPackets s)"
  "gPacketStatusList (pingResend env i s) = gPacketStatusList s"
  "gGotFirstListPacket (pingResend env i s) = gGotFirstListPacket s"
  by (simp_all add: pingResend_def Let_def sendPacket_def forwardToMasters_def filter_empty_conv)

lemma queryResend_fields [simp]:
  "gPingList (queryResend env i j s) = gPingList s"
  "gPacketStatusList (queryResend env i j s) = gPacketStatusList s"
  "gGotFirstListPacket (queryResend env i j s) = gGotFirstListPacket s"
  by (simp_all add: queryResend_def Let_def sendPacket_def forwardToMasters_def)

text \<open>The ping loop leaves the query list alone and sends no information request.\<close>

lemma pingLoop_gQueryList [simp]: "gQueryList (pingLoop env w i s) = gQueryList s"
proof (induction env w i s rule: pingLoop.induct)
  case (1 env w i s)
  show ?case by (subst pingLoop.simps) (simp add: 1)
qed

lemma pingLoop_infoRequests [simp]:
  "filter isInfoRequest (sentPackets (pingLoop env w i s)) = filter isInfoRequest (sentPackets s)"
proof (induction env w i s rule: pingLoop.induct)
  case (1 env w i s)
  show ?case by (subst pingLoop.simps) (simp add: 1)
qed

lemma pingLoop_packets [simp]:
  "gPacketStatusList (pingLoop env w i s) = gPacketStatusList s \<and>
   gGotFirstListPacket (pingLoop env w i s) = gGotFirstListPacket s"
proof (induction env w i s rule: pingLoop.induct)
  case (1 env w i s)
  show ?case by (subst (1 2) pingLoop.simps) (simp add: 1)
qed

text \<open>The query loop leaves the ping list alone.\<close>

lemma queryLoop_gPingList [simp]: "gPingList (queryLoop env i s) = gPingList s"
proof (induction env i s rule: queryLoop.induct)
  case (1 env i s)
  show ?case by (subst queryLoop.simps) (simp add: 1 split: option.split)
qed

lemma queryLoop_packets [simp]:
  "gPacketStatusList (queryLoop env i s) = gPacketStatusList s \<and>
   gGotFirstListPacket (queryLoop env i s) = gGotFirstListPacket s"
proof (induction env i s rule: queryLoop.induct)
  case (1 env i s)
  show ?case by (subst (1 2) queryLoop.simps) (simp add: 1 split: option.split)
qed

lemma processPingsAndQueries_packets [simp]:
  "gPacketStatusList (processPingsAndQueries env session schedule s) = gPacketStatusList s"
  "gGotFirstListPacket (processPingsAndQueries env session schedule s) = gGotFirstListPacket s"
  by (simp_all add: processPingsAndQueries_def Let_def postEvent_def onServerQueryStatus_def)

text \<open>One tick of \<^verbatim>\<open>processPingsAndQueries\<close> for the current session, field by field.\<close>

lemma processPingsAndQueries_fields:
  "gPingList (processPingsAndQueries env (gPingSession s) schedule s) =
     gPingList (pingLoop env (waitingForMaster s) 0 s)"
  "\<not> (gPingList (pingLoop env (waitingForMaster s) 0 s) = [] \<and> \<not> waitingForMaster s) \<Longrightarrow>
   gQueryList (processPingsAndQueries env (gPingSession s) schedule s) = gQueryList s"
  "\<not> (gPingList (pingLoop env (waitingForMaster s) 0 s) = [] \<and> \<not> waitingForMaster s) \<Longrightarrow>
   filter isInfoRequest (sentPackets (processPingsAndQueries env (gPingSession s) schedule s)) =
     filter isInfoRequest (sentPackets s)"
proof -
  define s1 where "s1 = pingLoop env (waitingForMaster s) 0 s"
  define s2 where "s2 = (if gPingList s1 = [] \<and> \<not> waitingForMaster s then queryLoop env 0 s1 else s1)"
  have R: "processPingsAndQueries env (gPingSession s) schedule s =
      (if gPingList s2 \<noteq> [] \<or> gQueryList s2 \<noteq> [] \<or> waitingForMaster s then
         (if schedule then postEvent (ProcessPingEvent (gPingSession s)) (simTargetTime env + 1) s2
          else s2)
       else onServerQueryStatus ''done'' (doneMessage (length (gServerList s2))) ProgressOne s2)"
    unfolding processPingsAndQueries_def Let_def s1_def s2_def
    by (simp only: simp_thms if_False)
  have f: "gPingList (processPingsAndQueries env (gPingSession s) schedule s) = gPingList s2"
       "gQueryList (processPingsAndQueries env (gPingSession s) schedule s) = gQueryList s2"
       "sentPackets (processPingsAndQueries env (gPingSession s) schedule s) = sentPackets s2"
    unfolding R by (simp_all add: postEvent_def onServerQueryStatus_def)
  have p2: "gPingList s2 = gPingList s1" by (simp add: s2_def)
  show "gPingList (processPingsAndQueries env (gPingSession s) schedule s) =
     gPingList (pingLoop env (waitingForMaster s) 0 s)"
    using f p2 by (simp add: s1_def)
  {
    assume "\<not> (gPingList (pingLoop env (waitingForMaster s) 0 s) = [] \<and> \<not> waitingForMaster s)"
    then have "\<not> (gPingList s1 = [] \<and> \<not> waitingForMaster s)" unfolding s1_def .
    then have "s2 = s1" unfolding s2_def by (rule if_not_P)
    then show "gQueryList (processPingsAndQueries env (gPingSession s) schedule s) = gQueryList s"
      and "filter isInfoRequest (sentPackets (processPingsAndQueries env (gPingSession s) schedule s)) =
     filter isInfoRequest (sentPackets s)"
      using f by (simp_all add: s1_def)
  }
qed

subsection \<open>The packet status list\<close>




lemma pushPingRequest_fields [simp]:
  "gPacketStatusList (pushPingRequest a s) = gPacketStatusList s"
  "gGotFirstListPacket (pushPingRequest a s) = gGotFirstListPacket s"
  "gMasterServerPing (pushPingRequest a s) = gMasterServerPing s"
  "gPingSession (pushPingRequest a s) = gPingSession s"
  "gFinishedList (pushPingRequest a s) = gFinishedList s"
  by (simp_all add: pushPingRequest_def)

lemma addLocalAddress_fields [simp]:
  "gPacketStatusList (addLocalAddress a s) = gPacketStatusList s"
  "gGotFirstListPacket (addLocalAddress a s) = gGotFirstListPacket s"
  "gMasterServerPing (addLocalAddress a s) = gMasterServerPing s"
  "gPingSession (addLocalAddress a s) = gPingSession s"
  "gFinishedList (addLocalAddress a s) = gFinishedList s"
  "gPingList (addLocalAddress a s) = gPingList s"
  by (simp_all add: addLocalAddress_def)

lemma enterServers_fields [simp]:
  "gPacketStatusList (enterServers l flags s) = gPacketStatusList s \<and>
   gGotFirstListPacket (enterServers l flags s) = gGotFirstListPacket s \<and>
   gMasterServerPing (enterServers l flags s) = gMasterServerPing s \<and>
   gPingSession (enterServers l flags s) = gPingSession s \<and>
   gFinishedList (enterServers l flags s) = gFinishedList s"
  by (induction l flags s rule: enterServers.induct) (simp_all add: Let_def)



subsection \<open>Searching the lists\<close>

lemma findPingEntry_append_new:
  "findPingEntry l a = None \<Longrightarrow> p_address p = a \<Longrightarrow> findPingEntry (l @ [p]) a = Some (length l)"
  by (induction l) (auto simp: compareAddresses_def split: if_splits)


lemma addressInList_append [simp]:
  "addressInList a (l @ [b]) = (addressInList a l \<or> a = b)"
  by (induction l) (auto simp: compareAddresses_def)

subsection \<open>Signed and unsigned readings of a 32-bit value\<close>

lemma uint_by_sint:
  fixes arg :: "32 word"
  shows "uint arg = (if 0 \<le> sint arg then sint arg else sint arg + 2 ^ 32)"
proof -
  have m: "uint arg = sint arg mod 2 ^ 32"
    by (simp add: uint_sint take_bit_eq_mod)
  have lo: "- (2 ^ 31) \<le> sint arg" using sint_ge [of arg] by simp
  have hi: "sint arg < 2 ^ 31" using sint_lt [of arg] by simp
  show ?thesis
  proof (cases "0 \<le> sint arg")
    case True
    with hi have "sint arg mod 2 ^ 32 = sint arg" by simp
    with m True show ?thesis by simp
  next
    case False
    define k where "k = sint arg + 2 ^ 32"
    have k: "0 \<le> k" "k < 2 ^ 32" using lo False by (simp_all add: k_def)
    have "sint arg mod 2 ^ 32 = k mod 2 ^ 32" by (simp add: k_def)
    also have "\<dots> = k" using k by simp
    finally show ?thesis using m False by (simp add: k_def)
  qed
qed

lemma unat_in_range_iff:
  fixes arg :: "32 word"
  assumes "n < 2 ^ 31"
  shows "unat arg < n \<longleftrightarrow> 0 \<le> sint arg \<and> sint arg < int n"
proof -
  have e: "int (unat arg) = uint arg" by simp
  have f: "int n < 2 ^ 31" using assms by (simp add: of_nat_less_iff [symmetric] del: of_nat_less_iff)
  have lo: "- (2 ^ 31) \<le> sint arg" using sint_ge [of arg] by simp
  have "unat arg < n \<longleftrightarrow> uint arg < int n" using e by linarith
  also have "\<dots> \<longleftrightarrow> 0 \<le> sint arg \<and> sint arg < int n"
    using uint_by_sint [of arg] f lo by (auto split: if_splits)
  finally show ?thesis .
qed

lemma sint_succ:
  fixes x :: "32 word"
  assumes "x \<noteq> 0x7FFFFFFF"
  shows "sint (x + 1) = sint x + 1"
proof -
  have hi: "sint x < 2 ^ 31" using sint_lt [of x] by simp
  have lo: "- (2 ^ 31) \<le> sint x" using sint_ge [of x] by simp
  have "sint x \<noteq> 2 ^ 31 - 1"
  proof
    assume "sint x = 2 ^ 31 - 1"
    then have "sint x = sint (0x7FFFFFFF :: 32 word)" by simp
    then have "x = 0x7FFFFFFF" by (rule signed_word_eqI)
    with assms show False by simp
  qed
  with hi have r: "sint x + 1 < 2 ^ 31" by simp
  have "sint (x + 1) = signed_take_bit 31 (sint x + 1)"
    by (simp add: sint_word_ariths)
  also have "\<dots> = sint x + 1"
    using lo r by (simp add: signed_take_bit_int_eq_self)
  finally show ?thesis .
qed

subsection \<open>The sample runs, evaluated\<close>

lemmas state_defs =
  initialState_def sampleEnv_def sampleServerInfo_def serverA_def serverB_def serverC_def
  compareAddresses_def

lemmas step_defs =
  onServerQueryStatus_def pushPingRequest_def addressFinished_def
  sendPacket_def keyField_def postEvent_def forwardToMasters_def setStatus_def
  gPingRetryCount_def gPingTimeout_def gMaxConcurrentPings_def gPacketTimeout_def
  gPacketRetryCount_def gMaxConcurrentQueries_def OnlineQuery_def

lemma refreshing_pushed:
  "refreshingState = processPingsAndQueries sampleEnv 0 True
     (initialState
       \<lparr>sgServerQueryActive := True, gServerPingCount := 1,
        gPingList := [\<lparr>p_address = serverA, p_session = 0, p_key = 0,
            p_time = 0, p_tryCount = 4, p_broadcast = False, p_isLocal = False\<rparr>],
        statusCallbacks := [OnServerQueryStatus ''start'' RefreshingServer ProgressZero]\<rparr>)"
  by (simp add: refreshingState_def querySingleServer_def Let_def state_defs step_defs)

lemma refreshingState_eq:
  "refreshingState = initialState
     \<lparr>sgServerQueryActive := True, gKey := 1, gServerPingCount := 1,
      gPingList := [\<lparr>p_address = serverA, p_session = 0, p_key = 0,
          p_time = 5000, p_tryCount = 3, p_broadcast = False, p_isLocal = False\<rparr>],
      sentPackets := [(serverA, InfoPacket GamePingRequest 0 0)],
      postedEvents := [(ProcessPingEvent 0, 5001)],
      statusCallbacks := [OnServerQueryStatus ''start'' RefreshingServer ProgressZero]\<rparr>"
  unfolding refreshing_pushed
  by (simp add: processPingsAndQueries_def waitingForMaster_def pingLoop.simps pingResend_def
      Let_def state_defs step_defs)

lemma cancelledState_eq:
  "cancelledState = initialState
     \<lparr>gServerBrowserDirty := True, gKey := 1, gServerPingCount := 1,
      sentPackets := [(serverA, InfoPacket GamePingRequest 0 0)],
      postedEvents := [(ProcessPingEvent 0, 5001)],
      statusCallbacks := [OnServerQueryStatus ''start'' RefreshingServer ProgressZero]\<rparr>"
  by (simp add: cancelledState_def refreshingState_eq cancelServerQuery_def state_defs)

lemma after_first_entered:
  "afterFirstFragment = processServerListPackets sampleEnv 0
     (initialState
     \<lparr>sgServerQueryActive := True, gKey := 1,
      gGotFirstListPacket := True,
      gServerPingCount := 2,
      gPingList := [\<lparr>p_address = serverA, p_session = 0, p_key = 0,
          p_time = 5000, p_tryCount = 3, p_broadcast = False, p_isLocal = False\<rparr>,
         \<lparr>p_address = serverC, p_session = 0, p_key = 0,
          p_time = 0, p_tryCount = 4, p_broadcast = False, p_isLocal = False\<rparr>],
      gPacketStatusList := [\<lparr>ps_index = 1, ps_key = 0, ps_time = 5000, ps_tryCount = 4\<rparr>],
      sentPackets := [(serverA, InfoPacket GamePingRequest 0 0)],
      postedEvents := [(ProcessPingEvent 0, 5001)],
      statusCallbacks := [OnServerQueryStatus ''start'' RefreshingServer ProgressZero]\<rparr>)"
  by (simp add: afterFirstFragment_def refreshingState_eq firstFragment_def
      handleMasterServerListResponse_def packetKey_def Let_def fillPacketStatusList.simps
      newPacketStatus_def state_defs step_defs)

lemma afterFirstFragment_eq:
  "afterFirstFragment = initialState
     \<lparr>sgServerQueryActive := True, gKey := 1,
      gGotFirstListPacket := True,
      gServerPingCount := 2,
      gPingList := [\<lparr>p_address = serverA, p_session = 0, p_key = 0,
          p_time = 5000, p_tryCount = 3, p_broadcast = False, p_isLocal = False\<rparr>,
         \<lparr>p_address = serverC, p_session = 0, p_key = 0,
          p_time = 0, p_tryCount = 4, p_broadcast = False, p_isLocal = False\<rparr>],
      gPacketStatusList := [\<lparr>ps_index = 1, ps_key = 0, ps_time = 5000, ps_tryCount = 4\<rparr>],
      sentPackets := [(serverA, InfoPacket GamePingRequest 0 0)],
      postedEvents := [(ProcessPingEvent 0, 5001), (ProcessPacketEvent 0, 5030)],
      statusCallbacks := [OnServerQueryStatus ''start'' RefreshingServer ProgressZero]\<rparr>"
  unfolding after_first_entered
  by (simp add: processServerListPackets_def packetLoop.simps Let_def state_defs step_defs)

lemma afterSecondFragment_pings:
  "gPingList afterSecondFragment =
     [\<lparr>p_address = serverA, p_session = 0, p_key = 0,
          p_time = 5000, p_tryCount = 3, p_broadcast = False, p_isLocal = False\<rparr>,
      \<lparr>p_address = serverC, p_session = 0, p_key = 0,
          p_time = 0, p_tryCount = 4, p_broadcast = False, p_isLocal = False\<rparr>,
      \<lparr>p_address = serverC, p_session = 0, p_key = 0,
          p_time = 0, p_tryCount = 4, p_broadcast = False, p_isLocal = False\<rparr>]"
  by (simp add: afterSecondFragment_def afterFirstFragment_eq secondFragment_def
      handleMasterServerListResponse_def packetKey_def Let_def erase_def
      state_defs step_defs)



lemma lanState_tick_pings:
  "gPingList (processPingsAndQueries sampleEnv 0 True lanState) = gPingList lanState"
proof -
  have w: "\<not> waitingForMaster lanState"
    by (simp add: waitingForMaster_def lanState_def state_defs)
  have s: "gPingSession lanState = 0" by (simp add: lanState_def state_defs)
  have "pingLoop sampleEnv False 0 lanState = lanState"
    by (simp add: pingLoop.simps lanState_def state_defs step_defs)
  with w processPingsAndQueries_fields(1) [of sampleEnv lanState True] s show ?thesis by simp
qed


lemma cancelled_then_listed:
  "handleMasterServerListResponse sampleEnv firstFragment 0 0 cancelledState =
     initialState
     \<lparr>gServerBrowserDirty := True, gKey := 1,
      gGotFirstListPacket := True,
      gServerPingCount := 2,
      gPingList := [\<lparr>p_address = serverC, p_session = 0, p_key = 0,
          p_time = 0, p_tryCount = 4, p_broadcast = False, p_isLocal = False\<rparr>],
      gPacketStatusList := [\<lparr>ps_index = 1, ps_key = 0, ps_time = 5000, ps_tryCount = 4\<rparr>],
      sentPackets := [(serverA, InfoPacket GamePingRequest 0 0)],
      postedEvents := [(ProcessPingEvent 0, 5001)],
      statusCallbacks := [OnServerQueryStatus ''start'' RefreshingServer ProgressZero]\<rparr>"
  by (simp add: cancelledState_eq firstFragment_def
      handleMasterServerListResponse_def packetKey_def Let_def fillPacketStatusList.simps
      processServerListPackets_def
      newPacketStatus_def state_defs step_defs)
















lemma browsedState_list:
  "gServerList browsedState =
       [sampleServerInfo\<lparr>si_address := serverA\<rparr>,
        \<lparr>si_status = 0x40000003, si_address = serverB, si_name = Some ''Server B'',
         si_gameType = Some ''Marble'', si_missionType = Some ''Race'',
         si_missionName = Some ''Learning to Roll'', si_statusString = Some ''waiting'',
         si_infoString = Some ''welcome'',
         si_numPlayers = 3, si_maxPlayers = 8, si_numBots = 1, si_version = 1, si_ping = 42,
         si_cpuSpeed = 2400, si_isFavorite = True, si_isLocal = True\<rparr>]"
  "conVariables browsedState = (\<lambda>name. None)"
  by (simp_all add: browsedState_def initialState_def)

lemma browserEnv_facts:
  "addressToString browserEnv serverA = ''IP:192.0.2.10:28000''"
  "addressToString browserEnv serverB = ''IP:192.0.2.11:28000''"
  "Status_Dedicated browserEnv = 1"
  "Status_Passworded browserEnv = 2"
  by (simp_all add: browserEnv_def sampleEnv_def serverA_def serverB_def)

subsection \<open>The masters a heartbeat goes to\<close>


subsection \<open>Addresses without an entry\<close>

lemma findPingEntry_None_iff: "findPingEntry l a = None \<longleftrightarrow> a \<notin> p_address ` set l"
  by (induction l) (auto simp: compareAddresses_def)

lemma addressInList_iff: "addressInList a l \<longleftrightarrow> a \<in> set l"
  by (induction l) (auto simp: compareAddresses_def)

lemma settled_iff:
  "settled a s \<longleftrightarrow>
     a \<in> set (gFinishedList s) \<and> a \<notin> p_address ` set (gPingList s) \<and>
     a \<notin> p_address ` set (gQueryList s)"
  by (simp add: settled_def addressFinished_def addressInList_iff findPingEntry_None_iff)







subsection \<open>A settled address stays settled\<close>




lemma keeps_log [simp]:
  "keeps a s (postEvent ev t s') = keeps a s s'"
  "keeps a s (onServerQueryStatus phase msg progress s') = keeps a s s'"
  "keeps a s (updatePingProgress s') = keeps a s s'"
  "keeps a s (updateQueryProgress s') = keeps a s s'"
  by (simp_all add: keeps_def settled_iff postEvent_def onServerQueryStatus_def)
















lemma removeServerInfoFrom_fields:
  "gFinishedList (removeServerInfoFrom i b s) = gFinishedList s \<and>
   gPingList (removeServerInfoFrom i b s) = gPingList s \<and>
   gQueryList (removeServerInfoFrom i b s) = gQueryList s \<and>
   sentPackets (removeServerInfoFrom i b s) = sentPackets s"
proof (induction i b s rule: removeServerInfoFrom.induct)
  case (1 i b s)
  show ?case
  proof (cases "i < length (gServerList s)")
    case False
    then have "removeServerInfoFrom i b s = s" by (subst removeServerInfoFrom.simps) simp
    then show ?thesis by simp
  next
    case c: True
    show ?thesis
    proof (cases "compareAddresses b (si_address (gServerList s ! i))")
      case True
      with c have "removeServerInfoFrom i b s =
          removeServerInfoFrom (Suc i) b
            (s\<lparr>gServerList := erase i (gServerList s), gServerBrowserDirty := True\<rparr>)"
        by (subst removeServerInfoFrom.simps) simp
      with 1(1) [OF c True] show ?thesis by simp
    next
      case False
      with c have "removeServerInfoFrom i b s = removeServerInfoFrom (Suc i) b s"
        by (subst removeServerInfoFrom.simps) simp
      with 1(2) [OF c False] show ?thesis by simp
    qed
  qed
qed

lemma removeServerInfo_fields [simp]:
  "gFinishedList (removeServerInfo b s) = gFinishedList s"
  "gPingList (removeServerInfo b s) = gPingList s"
  "gQueryList (removeServerInfo b s) = gQueryList s"
  "sentPackets (removeServerInfo b s) = sentPackets s"
  by (simp_all add: removeServerInfo_def removeServerInfoFrom_fields)













section \<open>The claims\<close>

text \<open>
  Claim C1: every call to \<^verbatim>\<open>cancelServerQuery\<close> while a query is active strictly
  increases \<^verbatim>\<open>gPingSession\<close>, so that a response or scheduled event stamped with the
  session of before is ignored afterwards.

  The code does not do this: \<^verbatim>\<open>cancelServerQuery\<close> never writes \<^verbatim>\<open>gPingSession\<close>.
  In the sample run the query for server A is active with session 0; after the cancel
  the session is still 0.  The ping event that was posted for session 0 is not ignored
  when it fires: it finds the lists empty and reports that the query is done.  Nor is a
  master list response with the key of session 0: it is accepted and enters server C
  into the ping list.
\<close>

theorem cancelServerQuery_session_counterexample:
  "sgServerQueryActive refreshingState \<and>
   gPingSession refreshingState = 0 \<and>
   gPingSession (cancelServerQuery sampleEnv refreshingState) = 0 \<and>
   \<not> sint (gPingSession refreshingState)
       < sint (gPingSession (cancelServerQuery sampleEnv refreshingState)) \<and>
   postedEvents refreshingState = [(ProcessPingEvent 0, 5001)] \<and>
   statusCallbacks (processPingsAndQueries sampleEnv 0 True (cancelServerQuery sampleEnv refreshingState)) =
     [OnServerQueryStatus ''start'' RefreshingServer ProgressZero,
      OnServerQueryStatus ''done'' NoServersFound ProgressOne] \<and>
   gPingList (handleMasterServerListResponse sampleEnv firstFragment 0 0
                (cancelServerQuery sampleEnv refreshingState)) =
     [\<lparr>p_address = serverC, p_session = 0, p_key = 0, p_time = 0, p_tryCount = 4,
       p_broadcast = False, p_isLocal = False\<rparr>]"
proof -
  have a: "sgServerQueryActive refreshingState" "gPingSession refreshingState = 0"
    "postedEvents refreshingState = [(ProcessPingEvent 0, 5001)]"
    by (simp_all add: refreshingState_eq state_defs)
  have b: "gPingSession (cancelServerQuery sampleEnv refreshingState) = 0"
    using cancelledState_eq by (simp add: cancelledState_def state_defs)
  have c: "statusCallbacks (processPingsAndQueries sampleEnv 0 True cancelledState) =
     [OnServerQueryStatus ''start'' RefreshingServer ProgressZero,
      OnServerQueryStatus ''done'' NoServersFound ProgressOne]"
    unfolding cancelledState_eq
    by (simp add: processPingsAndQueries_def waitingForMaster_def pingLoop.simps queryLoop.simps
        doneMessage_def Let_def state_defs step_defs)
  have d: "gPingList (handleMasterServerListResponse sampleEnv firstFragment 0 0 cancelledState) =
     [\<lparr>p_address = serverC, p_session = 0, p_key = 0, p_time = 0, p_tryCount = 4,
       p_broadcast = False, p_isLocal = False\<rparr>]"
    unfolding cancelled_then_listed by (simp add: state_defs)
  from a b c d show ?thesis by (simp add: cancelledState_def)
qed

text \<open>
  Claim C1 as amended: \<^verbatim>\<open>cancelServerQuery\<close> while a query is active leaves
  \<^verbatim>\<open>gPingSession\<close> as it is; it empties the ping, query and packet status lists and
  clears \<^verbatim>\<open>sgServerQueryActive\<close>.  In the state it leaves, as in every state with an
  empty ping list, a ping response is dropped; in the state it leaves, as in every state
  without an active query, a packet event does nothing.  The session is increased, by
  one, by \<^verbatim>\<open>clearServerList\<close>; the new session is greater as a signed number unless
  the old one was the largest.  In the state \<^verbatim>\<open>clearServerList\<close> leaves, as in every
  state whose session is not the one an event is stamped with, a ping event or packet
  event does nothing.
\<close>

theorem cancelServerQuery_keeps_session:
  assumes "sgServerQueryActive s"
  shows "gPingSession (cancelServerQuery env s) = gPingSession s \<and>
         gPingList (cancelServerQuery env s) = [] \<and>
         gQueryList (cancelServerQuery env s) = [] \<and>
         gPacketStatusList (cancelServerQuery env s) = [] \<and>
         \<not> sgServerQueryActive (cancelServerQuery env s) \<and>
         handleGamePingResponse env' address body key (cancelServerQuery env s) =
           cancelServerQuery env s \<and>
         processServerListPackets env' session (cancelServerQuery env s) = cancelServerQuery env s \<and>
         (gPingList s' = [] \<longrightarrow> handleGamePingResponse env' address body key s' = s') \<and>
         (\<not> sgServerQueryActive s' \<longrightarrow> processServerListPackets env' session s' = s') \<and>
         gPingSession (clearServerList c s) = gPingSession s + 1 \<and>
         (gPingSession s \<noteq> 0x7FFFFFFF \<longrightarrow>
            sint (gPingSession s) < sint (gPingSession (clearServerList c s))) \<and>
         processPingsAndQueries env' (gPingSession s) schedule (clearServerList c s) =
           clearServerList c s \<and>
         processServerListPackets env' (gPingSession s) (clearServerList c s) = clearServerList c s \<and>
         (session \<noteq> gPingSession s' \<longrightarrow>
            processPingsAndQueries env' session schedule s' = s' \<and>
            processServerListPackets env' session s' = s')"
proof -
  have cancel: "gPingSession (cancelServerQuery env s) = gPingSession s"
    "gPingList (cancelServerQuery env s) = []"
    "gQueryList (cancelServerQuery env s) = []"
    "gPacketStatusList (cancelServerQuery env s) = []"
    "\<not> sgServerQueryActive (cancelServerQuery env s)"
    using assms by (simp_all add: cancelServerQuery_def)
  have resp: "handleGamePingResponse env' address body key (cancelServerQuery env s) =
           cancelServerQuery env s"
    using cancel(2) by (simp add: handleGamePingResponse_def)
  have pkt: "processServerListPackets env' session (cancelServerQuery env s) = cancelServerQuery env s"
    using cancel(5) by (simp add: processServerListPackets_def)
  have idle: "gPingList s' = [] \<longrightarrow> handleGamePingResponse env' address body key s' = s'"
    by (simp add: handleGamePingResponse_def)
  have inactive: "\<not> sgServerQueryActive s' \<longrightarrow> processServerListPackets env' session s' = s'"
    by (simp add: processServerListPackets_def)
  have clear: "gPingSession (clearServerList c s) = gPingSession s + 1"
    by (simp add: clearServerList_def)
  have grows: "gPingSession s \<noteq> 0x7FFFFFFF \<longrightarrow>
            sint (gPingSession s) < sint (gPingSession (clearServerList c s))"
    unfolding clear using sint_succ [of "gPingSession s"] by simp
  have stale: "gPingSession s \<noteq> gPingSession (clearServerList c s)"
    unfolding clear by simp
  have ev1: "processPingsAndQueries env' (gPingSession s) schedule (clearServerList c s) =
           clearServerList c s"
    using stale by (simp add: processPingsAndQueries_def)
  have ev2: "processServerListPackets env' (gPingSession s) (clearServerList c s) = clearServerList c s"
    using stale by (simp add: processServerListPackets_def)
  have other: "session \<noteq> gPingSession s' \<longrightarrow>
            processPingsAndQueries env' session schedule s' = s' \<and>
            processServerListPackets env' session s' = s'"
    by (simp add: processPingsAndQueries_def processServerListPackets_def)
  from cancel resp pkt idle inactive clear grows ev1 ev2 other show ?thesis by blast
qed

theorem cancelServerQuery_keeps_session_witness:
  "sgServerQueryActive refreshingState \<and>
   gPingSession (cancelServerQuery sampleEnv refreshingState) = gPingSession refreshingState \<and>
   gPingList (cancelServerQuery sampleEnv refreshingState) = [] \<and>
   handleGamePingResponse sampleEnv serverB sameVersionBody 0
     (cancelServerQuery sampleEnv refreshingState) = cancelServerQuery sampleEnv refreshingState \<and>
   gPingList initialState = [] \<and>
   handleGamePingResponse sampleEnv serverB sameVersionBody 0 initialState = initialState \<and>
   \<not> sgServerQueryActive initialState \<and>
   processServerListPackets sampleEnv 0 initialState = initialState \<and>
   gPingSession (clearServerList True refreshingState) = 1 \<and>
   sint (gPingSession refreshingState) < sint (gPingSession (clearServerList True refreshingState)) \<and>
   processPingsAndQueries sampleEnv 0 True (clearServerList True refreshingState) =
     clearServerList True refreshingState \<and>
   processPingsAndQueries sampleEnv 7 True refreshingState = refreshingState"
proof -
  have a: "sgServerQueryActive refreshingState" "gPingSession refreshingState = 0"
    by (simp_all add: refreshingState_eq state_defs)
  have i: "gPingList initialState = []" "\<not> sgServerQueryActive initialState"
    by (simp_all add: initialState_def)
  from cancelServerQuery_keeps_session [OF a(1), of sampleEnv sampleEnv serverB sameVersionBody 0 0
         initialState True True]
       cancelServerQuery_keeps_session [OF a(1), of sampleEnv sampleEnv serverB sameVersionBody 0 7
         refreshingState True True] a i
  show ?thesis by simp
qed

text \<open>
  Claim C2: in every reachable state, and for every address A, \<^verbatim>\<open>gPingList\<close> holds at
  most one \<^verbatim>\<open>Ping\<close> for A, also when A is delivered in two master-list fragments while
  the first ping for it is outstanding.

  The code does not keep this: \<^verbatim>\<open>pushPingRequest\<close> looks at \<^verbatim>\<open>gFinishedList\<close> only.
  In the sample run two pages of a master list arrive, both accepted and both naming
  server C; afterwards \<^verbatim>\<open>gPingList\<close> holds two pings for C.
\<close>

theorem duplicate_ping_counterexample:
  "pingsFor serverC afterFirstFragment = 1 \<and>
   pingsFor serverC afterSecondFragment = 2 \<and>
   \<not> pingsFor serverC afterSecondFragment \<le> 1"
  by (simp add: pingsFor_def afterSecondFragment_pings afterFirstFragment_eq state_defs)

text \<open>
  Claim C2 as amended: entering the servers of an accepted master list packet appends
  one \<^verbatim>\<open>Ping\<close> for A for each time the packet names A, unless A is in
  \<^verbatim>\<open>gFinishedList\<close>, in which case it appends none; \<^verbatim>\<open>gPingList\<close> itself is not
  consulted, so an address named again while its first ping is outstanding has a second
  entry.
\<close>

theorem enterServers_pings:
  "pingsFor a (enterServers l flags s) =
     pingsFor a s + (if addressFinished a s then 0 else count_list (map entryAddress l) a)"
proof (induction l flags s rule: enterServers.induct)
  case (1 flags s)
  show ?case by simp
next
  case (2 n0 n1 n2 n3 port rest flags s)
  define addr where "addr = IPAddress n0 n1 n2 n3 port"
  define s1 where "s1 = (if flags \<noteq> 0 then addLocalAddress addr s else s)"
  have fin: "addressFinished a (pushPingRequest addr s1) = addressFinished a s"
    by (simp add: addressFinished_def s1_def)
  have f1: "addressFinished addr s1 = addressFinished addr s"
    by (simp add: addressFinished_def s1_def)
  have p1: "pingsFor a s1 = pingsFor a s"
    by (simp add: pingsFor_def s1_def)
  have push: "pingsFor a (pushPingRequest addr s1) =
      pingsFor a s + (if addressFinished addr s \<or> a \<noteq> addr then 0 else 1)"
    using f1 p1 by (auto simp: pingsFor_def pushPingRequest_def compareAddresses_def)
  have "pingsFor a (enterServers ((n0, n1, n2, n3, port) # rest) flags s) =
        pingsFor a (enterServers rest flags (pushPingRequest addr s1))"
    by (simp add: Let_def addr_def s1_def)
  also have "\<dots> = pingsFor a (pushPingRequest addr s1) +
      (if addressFinished a s then 0 else count_list (map entryAddress rest) a)"
    using 2 [of addr s1] fin by (simp add: addr_def s1_def)
  finally show ?case
    unfolding push by (auto simp: addr_def)
qed

text \<open>
  Claim C3: the query phase never begins while a ping is outstanding.  If, after a tick
  of \<^verbatim>\<open>processPingsAndQueries\<close>, \<^verbatim>\<open>gPingList\<close> is not empty, or if a \<^verbatim>\<open>Normal\<close> query
  is active and its first master list packet has not arrived, then the tick has left
  \<^verbatim>\<open>gQueryList\<close> as it was and has sent no request for server information.  (The tick
  itself may erase the last ping that timed out; the query phase then starts in the same
  tick, with \<^verbatim>\<open>gPingList\<close> empty.)
\<close>

theorem query_phase_waits_for_pings:
  assumes "gPingList (processPingsAndQueries env session schedule s) \<noteq> [] \<or>
           (f_type (sActiveFilter s) = Normal \<and> sgServerQueryActive s \<and> \<not> gGotFirstListPacket s)"
  shows "gQueryList (processPingsAndQueries env session schedule s) = gQueryList s \<and>
         filter isInfoRequest (sentPackets (processPingsAndQueries env session schedule s)) =
           filter isInfoRequest (sentPackets s)"
proof (cases "session = gPingSession s")
  case False
  then show ?thesis by (simp add: processPingsAndQueries_def)
next
  case True
  from assms have "\<not> (gPingList (pingLoop env (waitingForMaster s) 0 s) = [] \<and> \<not> waitingForMaster s)"
    unfolding True processPingsAndQueries_fields(1) by (auto simp: waitingForMaster_def)
  then show ?thesis
    unfolding True by (simp add: processPingsAndQueries_fields)
qed

theorem query_phase_waits_for_pings_witness:
  "gPingList (processPingsAndQueries sampleEnv 0 True lanState) \<noteq> [] \<and>
   f_type (sActiveFilter lanState) \<noteq> Normal \<and>
   gQueryList lanState =
     [\<lparr>p_address = serverB, p_session = 0, p_key = 0, p_time = 0,
       p_tryCount = 4, p_broadcast = False, p_isLocal = True\<rparr>] \<and>
   gQueryList (processPingsAndQueries sampleEnv 0 True lanState) = gQueryList lanState \<and>
   filter isInfoRequest (sentPackets (processPingsAndQueries sampleEnv 0 True lanState)) = []"
proof -
  have a: "gPingList (processPingsAndQueries sampleEnv 0 True lanState) \<noteq> []"
    unfolding lanState_tick_pings by (simp add: lanState_def)
  have b: "f_type (sActiveFilter lanState) \<noteq> Normal" "sentPackets lanState = []"
    "gQueryList lanState =
     [\<lparr>p_address = serverB, p_session = 0, p_key = 0, p_time = 0,
       p_tryCount = 4, p_broadcast = False, p_isLocal = True\<rparr>]"
    by (simp_all add: lanState_def state_defs)
  from query_phase_waits_for_pings [of sampleEnv 0 True lanState] a b show ?thesis by simp
qed






text \<open>
  Claim C6: the ping responder sends no reply when the server type is
  \<^verbatim>\<open>"SinglePlayer"\<close> (the comparison is that of \<^verbatim>\<open>dStricmp\<close>), when the
  \<^verbatim>\<open>OfflineQuery\<close> bit of the request is set, or when the player count is at least the
  maximum less the private slots (32-bit signed arithmetic); nor when the server does
  not accept connections.  In every other state it sends exactly one
  \<^verbatim>\<open>GamePingResponse\<close>, to the address that asked, echoing flags and key.
\<close>

theorem ping_responder_replies:
  "(dStricmp (serverType env) ''SinglePlayer'' = 0 \<or>
    flags AND OfflineQuery \<noteq> 0 \<or>
    sint (prefMaxPlayers env - prefPrivateSlots env) \<le> sint (serverPlayerCount env) \<or>
    \<not> doesAllowConnections env \<longrightarrow>
      handleGamePingRequest env address key flags s = s) \<and>
   (doesAllowConnections env \<and>
    dStricmp (serverType env) ''SinglePlayer'' \<noteq> 0 \<and>
    flags AND OfflineQuery = 0 \<and>
    sint (serverPlayerCount env) < sint (prefMaxPlayers env - prefPrivateSlots env) \<longrightarrow>
      handleGamePingRequest env address key flags s =
        s\<lparr>sentPackets := sentPackets s @
             [(address, PingResponse flags key (flags AND NoStringCompress \<noteq> 0) versionString
                 (CurrentProtocolVersion env) (MinRequiredProtocolVersion env)
                 (versionNumber env) (take 24 (prefServerName env)))]\<rparr>)"
  by (auto simp add: handleGamePingRequest_def Let_def)

theorem ping_responder_replies_witness:
  "sentPackets (handleGamePingRequest sampleEnv serverA 7 0 initialState) =
     [(serverA, PingResponse 0 7 False ''VER1'' 12 12 1 ''Marble Blast Server'')] \<and>
   handleGamePingRequest sampleEnv serverA 7 1 initialState = initialState \<and>
   handleGamePingRequest singlePlayerEnv serverA 7 0 initialState = initialState \<and>
   handleGamePingRequest (sampleEnv\<lparr>serverPlayerCount := 6\<rparr>) serverA 7 0 initialState = initialState"
proof -
  have a: "doesAllowConnections sampleEnv" "dStricmp (serverType sampleEnv) ''SinglePlayer'' \<noteq> 0"
    "sint (serverPlayerCount sampleEnv) < sint (prefMaxPlayers sampleEnv - prefPrivateSlots sampleEnv)"
    by (simp_all add: sampleEnv_def dTolower_def)
  have b: "dStricmp (serverType singlePlayerEnv) ''SinglePlayer'' = 0"
    by (simp add: singlePlayerEnv_def dTolower_def)
  have c: "sint (prefMaxPlayers (sampleEnv\<lparr>serverPlayerCount := 6\<rparr>) -
                 prefPrivateSlots (sampleEnv\<lparr>serverPlayerCount := 6\<rparr>))
           \<le> sint (serverPlayerCount (sampleEnv\<lparr>serverPlayerCount := 6\<rparr>))"
    by (simp add: sampleEnv_def)
  have d: "sentPackets initialState = []" by (simp add: initialState_def)
  have e: "CurrentProtocolVersion sampleEnv = 12" "MinRequiredProtocolVersion sampleEnv = 12"
    "versionNumber sampleEnv = 1" "take 24 (prefServerName sampleEnv) = ''Marble Blast Server''"
    by (simp_all add: sampleEnv_def)
  from ping_responder_replies [of sampleEnv 0 serverA 7 initialState]
       ping_responder_replies [of sampleEnv 1 serverA 7 initialState]
       ping_responder_replies [of singlePlayerEnv 0 serverA 7 initialState]
       ping_responder_replies [of "sampleEnv\<lparr>serverPlayerCount := 6\<rparr>" 0 serverA 7 initialState]
       a b c d e
  show ?thesis by (simp add: OfflineQuery_def NoStringCompress_def versionString_def)
qed

text \<open>
  Claim C7: a \<^verbatim>\<open>GamePingResponse\<close> from an address that has no ping entry and is not
  finished is treated as a new local ping.

  The code does this only while \<^verbatim>\<open>gPingList\<close> is not empty: the handler returns at
  once when the list is empty.  In the sample run the query has been cancelled; server
  B, which has no ping entry and is not finished, answers, and no ping is enqueued.
\<close>

theorem anonymous_response_dropped_counterexample:
  "findPingEntry (gPingList cancelledState) serverB = None \<and>
   \<not> addressFinished serverB cancelledState \<and>
   gPingList (handleGamePingResponse sampleEnv serverB sameVersionBody 0 cancelledState) = []"
  by (simp add: handleGamePingResponse_def cancelledState_eq addressFinished_def state_defs)

text \<open>
  Claim C7 as amended: while \<^verbatim>\<open>gPingList\<close> is not empty, a \<^verbatim>\<open>GamePingResponse\<close> from
  an address that has no ping entry and is not finished only appends a fresh \<^verbatim>\<open>Ping\<close>
  for that address, with \<^verbatim>\<open>isLocal\<close> set, key and time zero and four tries, and counts
  it in \<^verbatim>\<open>gServerPingCount\<close>; nothing else changes, so no server info is updated.
\<close>

theorem anonymous_response_enqueued:
  assumes "gPingList s \<noteq> []"
    and "findPingEntry (gPingList s) address = None"
    and "\<not> addressFinished address s"
  shows "handleGamePingResponse env address body key s =
     s\<lparr>gPingList := gPingList s @
          [\<lparr>p_address = address, p_session = gPingSession s, p_key = 0, p_time = 0,
            p_tryCount = 4, p_broadcast = False, p_isLocal = True\<rparr>],
       gServerPingCount := gServerPingCount s + 1\<rparr>"
  using assms
  by (simp add: handleGamePingResponse_def pushPingRequest_def Let_def findPingEntry_append_new
      gPingRetryCount_def)

theorem anonymous_response_enqueued_witness:
  "gPingList refreshingState \<noteq> [] \<and>
   findPingEntry (gPingList refreshingState) serverB = None \<and>
   \<not> addressFinished serverB refreshingState \<and>
   gPingList (handleGamePingResponse sampleEnv serverB sameVersionBody 0 refreshingState) =
     gPingList refreshingState @
       [\<lparr>p_address = serverB, p_session = 0, p_key = 0, p_time = 0,
         p_tryCount = 4, p_broadcast = False, p_isLocal = True\<rparr>] \<and>
   gServerList (handleGamePingResponse sampleEnv serverB sameVersionBody 0 refreshingState) =
     gServerList refreshingState"
proof -
  have a: "gPingList refreshingState \<noteq> []"
    and b: "findPingEntry (gPingList refreshingState) serverB = None"
    and c: "\<not> addressFinished serverB refreshingState"
    and d: "gPingSession refreshingState = 0"
    by (simp_all add: refreshingState_eq addressFinished_def state_defs)
  from anonymous_response_enqueued [OF a b c, of sampleEnv sameVersionBody 0] a b c d
  show ?thesis by simp
qed



text \<open>
  Claim C9: whenever \<^verbatim>\<open>gPingList\<close> is empty, \<^verbatim>\<open>handleGamePingResponse\<close> returns at
  once: every ping response, also one from an unknown address that is not finished,
  leaves the whole state as it was.
\<close>

theorem ping_response_dropped_when_idle:
  "gPingList s = [] \<Longrightarrow> handleGamePingResponse env address body key s = s"
  by (simp add: handleGamePingResponse_def)

theorem ping_response_dropped_when_idle_witness:
  "gPingList initialState = [] \<and>
   \<not> addressFinished serverA initialState \<and>
   handleGamePingResponse sampleEnv serverA sameVersionBody 0 initialState = initialState"
proof -
  have a: "gPingList initialState = []" by (simp add: initialState_def)
  have b: "\<not> addressFinished serverA initialState"
    by (simp add: addressFinished_def initialState_def)
  from ping_response_dropped_when_idle [OF a, of sampleEnv serverA sameVersionBody 0] a b
  show ?thesis by simp
qed

text \<open>
  Claim C10: \<^verbatim>\<open>setServerInfo(index)\<close> returns true and publishes the fields of that
  server to the console variables if and only if \<^verbatim>\<open>0 \<le> index < size\<close> of the server
  list; for any other index, a negative one included, it returns false and changes
  nothing.  Publishing sets the eighteen variables \<^verbatim>\<open>ServerInfo::Status\<close> to
  \<^verbatim>\<open>ServerInfo::IsLocal\<close> from the fields of the server at that index, and nothing else
  in the state changes.  The index is the signed value of the argument; the code compares
  it as an unsigned number, which gives the same answer for every list of fewer than
  \<open>2\<^sup>3\<^sup>1\<close> servers.
\<close>

theorem setServerInfo_in_range:
  assumes "length (gServerList s) < 2 ^ 31"
  shows "setServerInfo env arg s =
     (if 0 \<le> sint arg \<and> sint arg < int (length (gServerList s))
      then (True,
            s\<lparr>conVariables :=
                (conVariables s)
                  (''ServerInfo::Status'' \<mapsto> IntValue (si_status (gServerList s ! nat (sint arg))),
                   ''ServerInfo::Address'' \<mapsto>
                      StringValue (Some (addressToString env (si_address (gServerList s ! nat (sint arg))))),
                   ''ServerInfo::Name'' \<mapsto> StringValue (si_name (gServerList s ! nat (sint arg))),
                   ''ServerInfo::GameType'' \<mapsto> StringValue (si_gameType (gServerList s ! nat (sint arg))),
                   ''ServerInfo::MissionName'' \<mapsto>
                      StringValue (si_missionName (gServerList s ! nat (sint arg))),
                   ''ServerInfo::MissionType'' \<mapsto>
                      StringValue (si_missionType (gServerList s ! nat (sint arg))),
                   ''ServerInfo::State'' \<mapsto> StringValue (si_statusString (gServerList s ! nat (sint arg))),
                   ''ServerInfo::Info'' \<mapsto> StringValue (si_infoString (gServerList s ! nat (sint arg))),
                   ''ServerInfo::PlayerCount'' \<mapsto>
                      IntValue (ucast (si_numPlayers (gServerList s ! nat (sint arg)))),
                   ''ServerInfo::MaxPlayers'' \<mapsto>
                      IntValue (ucast (si_maxPlayers (gServerList s ! nat (sint arg)))),
                   ''ServerInfo::BotCount'' \<mapsto>
                      IntValue (ucast (si_numBots (gServerList s ! nat (sint arg)))),
                   ''ServerInfo::Version'' \<mapsto> IntValue (si_version (gServerList s ! nat (sint arg))),
                   ''ServerInfo::Ping'' \<mapsto> IntValue (si_ping (gServerList s ! nat (sint arg))),
                   ''ServerInfo::CPUSpeed'' \<mapsto>
                      IntValue (ucast (si_cpuSpeed (gServerList s ! nat (sint arg)))),
                   ''ServerInfo::Favorite'' \<mapsto> BoolValue (si_isFavorite (gServerList s ! nat (sint arg))),
                   ''ServerInfo::Dedicated'' \<mapsto>
                      BoolValue (si_status (gServerList s ! nat (sint arg)) AND Status_Dedicated env \<noteq> 0),
                   ''ServerInfo::Password'' \<mapsto>
                      BoolValue (si_status (gServerList s ! nat (sint arg)) AND Status_Passworded env \<noteq> 0),
                   ''ServerInfo::IsLocal'' \<mapsto> BoolValue (si_isLocal (gServerList s ! nat (sint arg))))\<rparr>)
      else (False, s))"
proof (cases "unat arg < length (gServerList s)")
  case True
  with unat_in_range_iff [OF assms, of arg] have r: "0 \<le> sint arg" "sint arg < int (length (gServerList s))"
    by simp_all
  with uint_by_sint [of arg] have "sint arg = uint arg" by simp
  then have "nat (sint arg) = unat arg" by simp
  with True r show ?thesis by (simp add: setServerInfo_def publish_def test_def Let_def)
next
  case False
  with unat_in_range_iff [OF assms, of arg] show ?thesis
    by (simp add: setServerInfo_def Let_def)
qed

theorem setServerInfo_in_range_witness:
  "length (gServerList browsedState) < 2 ^ 31 \<and>
   fst (setServerInfo browserEnv 1 browsedState) \<and>
   map (conVariables (snd (setServerInfo browserEnv 1 browsedState)))
     [''ServerInfo::Status'', ''ServerInfo::Address'', ''ServerInfo::Name'', ''ServerInfo::GameType'',
      ''ServerInfo::MissionName'', ''ServerInfo::MissionType'', ''ServerInfo::State'',
      ''ServerInfo::Info'', ''ServerInfo::PlayerCount'', ''ServerInfo::MaxPlayers'',
      ''ServerInfo::BotCount'', ''ServerInfo::Version'', ''ServerInfo::Ping'', ''ServerInfo::CPUSpeed'',
      ''ServerInfo::Favorite'', ''ServerInfo::Dedicated'', ''ServerInfo::Password'',
      ''ServerInfo::IsLocal'', ''Server::Name''] =
     [Some (IntValue 0x40000003), Some (StringValue (Some ''IP:192.0.2.11:28000'')),
      Some (StringValue (Some ''Server B'')), Some (StringValue (Some ''Marble'')),
      Some (StringValue (Some ''Learning to Roll'')), Some (StringValue (Some ''Race'')),
      Some (StringValue (Some ''waiting'')), Some (StringValue (Some ''welcome'')),
      Some (IntValue 3), Some (IntValue 8), Some (IntValue 1), Some (IntValue 1), Some (IntValue 42),
      Some (IntValue 2400), Some (BoolValue True), Some (BoolValue True), Some (BoolValue True),
      Some (BoolValue True), None] \<and>
   map (conVariables (snd (setServerInfo browserEnv 0 browsedState)))
     [''ServerInfo::Status'', ''ServerInfo::Address'', ''ServerInfo::Name'', ''ServerInfo::Ping'',
      ''ServerInfo::Dedicated'', ''ServerInfo::IsLocal''] =
     [Some (IntValue 0), Some (StringValue (Some ''IP:192.0.2.10:28000'')), Some (StringValue None),
      Some (IntValue 0), Some (BoolValue False), Some (BoolValue False)] \<and>
   setServerInfo browserEnv 2 browsedState = (False, browsedState) \<and>
   setServerInfo browserEnv (- 1) browsedState = (False, browsedState)"
proof -
  have a: "length (gServerList browsedState) < 2 ^ 31"
    by (simp add: browsedState_list)
  have n: "nat (sint (1 :: 32 word)) = 1" "nat (sint (0 :: 32 word)) = 0" by simp_all
  from setServerInfo_in_range [OF a, of browserEnv 1]
       setServerInfo_in_range [OF a, of browserEnv 0]
       setServerInfo_in_range [OF a, of browserEnv 2]
       setServerInfo_in_range [OF a, of browserEnv "- 1"]
  show ?thesis
    by (simp add: browsedState_list browserEnv_facts sampleServerInfo_def)
qed

end
